theory Spec2Isabelle
  imports Main
begin

section \<open>JavaScript values\<close>

text \<open>
  The run service of \<^verbatim>\<open>libs/services/designer-client-services/src/lib/standard/run.ts\<close>
  handles payloads typed \<^verbatim>\<open>any\<close>: whatever the HTTP transport parsed from a response
  body, or a fixture. They are modelled by the values of JSON together with
  \<^verbatim>\<open>undefined\<close>. A number is an integer here: the service only tests numbers for
  truthiness, and a number with a fraction is truthy like any integer other than zero.
  An object is the list of its own enumerable properties in the order in which
  \<^verbatim>\<open>Object.keys\<close> lists them; the keys of a JavaScript object are distinct.
\<close>

datatype jsval =
    JUndefined
  | JNull
  | JBool bool
  | JNum int
  | JStr string
  | JArr "jsval list"
  | JObj "(string \<times> jsval) list"

text \<open>\<^verbatim>\<open>!v\<close> is true for \<^verbatim>\<open>undefined\<close>, \<^verbatim>\<open>null\<close>, \<^verbatim>\<open>false\<close>, \<^verbatim>\<open>0\<close> and the empty string.\<close>

fun truthy :: "jsval \<Rightarrow> bool" where
  "truthy JUndefined = False"
| "truthy JNull = False"
| "truthy (JBool b) = b"
| "truthy (JNum n) = (n \<noteq> 0)"
| "truthy (JStr s) = (s \<noteq> [])"
| "truthy (JArr xs) = True"
| "truthy (JObj kvs) = True"

text \<open>\<^verbatim>\<open>isString\<close> of \<^verbatim>\<open>@microsoft/utils-logic-apps\<close>: \<^verbatim>\<open>typeof value === 'string'\<close>.\<close>

fun isString :: "jsval \<Rightarrow> bool" where
  "isString (JStr s) = True"
| "isString v = False"

text \<open>The decimal text of a natural number, as a template literal renders it.\<close>

fun digit_char :: "nat \<Rightarrow> char" where
  "digit_char d = char_of (48 + d)"

fun nat_to_string :: "nat \<Rightarrow> string" where
  "nat_to_string n =
     (if n < 10 then [digit_char n]
      else nat_to_string (n div 10) @ [digit_char (n mod 10)])"

declare nat_to_string.simps [simp del]

text \<open>
  The own enumerable string-keyed properties of a value: those of an object, the
  indices of an array, the indices of a string, none for the other primitives.
\<close>

fun own_entries :: "jsval \<Rightarrow> (string \<times> jsval) list" where
  "own_entries (JObj kvs) = kvs"
| "own_entries (JArr xs) = zip (map nat_to_string [0..<length xs]) xs"
| "own_entries (JStr s) = zip (map nat_to_string [0..<length s]) (map (\<lambda>c. JStr [c]) s)"
| "own_entries v = []"

definition object_keys :: "jsval \<Rightarrow> string list" where
  "object_keys v = map fst (own_entries v)"

text \<open>\<^verbatim>\<open>v[k]\<close> for an own property, \<^verbatim>\<open>undefined\<close> when there is none.\<close>

definition get_prop :: "jsval \<Rightarrow> string \<Rightarrow> jsval" where
  "get_prop v k = (case map_of (own_entries v) k of Some x \<Rightarrow> x | None \<Rightarrow> JUndefined)"

text \<open>
  \<^verbatim>\<open>{ ...prev, [k]: x }\<close>: a property that \<^verbatim>\<open>prev\<close> already has keeps its place and
  takes the new value, a new one goes last.
\<close>

fun set_prop :: "(string \<times> jsval) list \<Rightarrow> string \<Rightarrow> jsval \<Rightarrow> (string \<times> jsval) list" where
  "set_prop [] k x = [(k, x)]"
| "set_prop ((k', x') # kvs) k x =
     (if k' = k then (k, x) # kvs else (k', x') # set_prop kvs k x)"

section \<open>Normalising an action's inputs and outputs\<close>

text \<open>
  \<^verbatim>\<open>
  parseActionLink(response: Record<string, any>, isInput: boolean): BoundParameters {
    if (!response) {
      return response;
    }
    const dictionaryResponse = isString(response) ? { [isInput ? 'Inputs' : 'Outputs']: response } : response;
    return Object.keys(dictionaryResponse).reduce((prev, current) => {
      return { ...prev, [current]: { displayName: current, value: dictionaryResponse[current] } };
    }, {});
  }
  \<close>
\<close>

definition bound_parameter :: "string \<Rightarrow> jsval \<Rightarrow> jsval" where
  "bound_parameter k x = JObj [(''displayName'', JStr k), (''value'', x)]"

definition parseActionLink :: "jsval \<Rightarrow> bool \<Rightarrow> jsval" where
  "parseActionLink response isInput =
     (if \<not> truthy response then response
      else
        let dictionaryResponse =
              (if isString response
               then JObj [(if isInput then ''Inputs'' else ''Outputs'', response)]
               else response)
        in JObj (foldl (\<lambda>prev current.
                     set_prop prev current (bound_parameter current (get_prop dictionaryResponse current)))
                   [] (object_keys dictionaryResponse)))"

section \<open>The HTTP transport and thrown values\<close>

text \<open>
  \<^verbatim>\<open>HttpRequestOptions\<close> as the service fills them in: the target, the optional headers and
  the optional \<^verbatim>\<open>noAuth\<close> flag.
\<close>

datatype http_verb = GET | POST | PUT

record HttpRequestOptions =
  uri :: string
  headers :: "(string \<times> string) list option"
  noAuth :: "bool option"

text \<open>
  What the transport rejects with. The service reads \<^verbatim>\<open>e.message\<close>, \<^verbatim>\<open>e.status\<close> and
  \<^verbatim>\<open>e?.data?.error?.message\<close>; the last two may be missing.
\<close>

record http_failure =
  e_message :: string
  e_status :: "nat option"
  e_data_error_message :: "string option"

type_synonym http_call = "http_verb \<times> HttpRequestOptions"

text \<open>
  The injected \<^verbatim>\<open>IHttpClient\<close>: the answer to a call may depend on the calls made before
  it. Every call is appended to the log that the operations thread through, so an
  operation that returns the log unchanged has not touched the transport.
\<close>

type_synonym IHttpClient = "http_call list \<Rightarrow> http_call \<Rightarrow> http_failure + jsval"

datatype exn =
    Error string
  | ArgumentException string
  | UnsupportedException string
  | TypeError string
  | Rejected http_failure

type_synonym 'a outcome = "(exn + 'a) \<times> http_call list"

definition http_request :: "IHttpClient \<Rightarrow> http_verb \<Rightarrow> HttpRequestOptions \<Rightarrow> http_call list \<Rightarrow> jsval outcome" where
  "http_request client verb opts log =
     ((case client log (verb, opts) of Inl f \<Rightarrow> Inl (Rejected f) | Inr body \<Rightarrow> Inr body),
      log @ [(verb, opts)])"

text \<open>\<^verbatim>\<open>e.message\<close> of a caught value.\<close>

fun message_of :: "exn \<Rightarrow> string" where
  "message_of (Error m) = m"
| "message_of (ArgumentException m) = m"
| "message_of (UnsupportedException m) = m"
| "message_of (TypeError m) = m"
| "message_of (Rejected f) = e_message f"

text \<open>\<^verbatim>\<open>try { ... } catch (e: any) { throw new Error(e.message); }\<close>\<close>

definition rethrow_message :: "'a outcome \<Rightarrow> 'a outcome" where
  "rethrow_message r =
     (case r of (Inl e, log') \<Rightarrow> (Inl (Error (message_of e)), log') | (Inr x, log') \<Rightarrow> (Inr x, log'))"

text \<open>A template literal renders a missing string as \<^verbatim>\<open>undefined\<close>.\<close>

fun template_text :: "string option \<Rightarrow> string" where
  "template_text None = ''undefined''"
| "template_text (Some s) = s"

definition apostrophe :: char where
  "apostrophe = CHR 0x27"

section \<open>The run service\<close>

record RunServiceOptions =
  apiVersion :: string
  baseUrl :: string
  httpClient :: IHttpClient
  accessToken :: "string option"
  workflowName :: string
  isDev :: "bool option"

text \<open>The object under construction: its \<^verbatim>\<open>options\<close> and its field \<^verbatim>\<open>_isDev\<close>.\<close>

record StandardRunService =
  options :: RunServiceOptions
  priv_isDev :: bool

text \<open>
  \<^verbatim>\<open>
  constructor(public readonly options: RunServiceOptions) {
    const { apiVersion, baseUrl, isDev } = options;
    if (!baseUrl) {
      throw new ArgumentException('baseUrl required');
    } else if (!apiVersion) {
      throw new ArgumentException('apiVersion required');
    }
    this._isDev = isDev || false;
  }
  \<close>
\<close>

definition new_StandardRunService :: "RunServiceOptions \<Rightarrow> exn + StandardRunService" where
  "new_StandardRunService opts =
     (if baseUrl opts = [] then Inl (ArgumentException ''baseUrl required'')
      else if apiVersion opts = [] then Inl (ArgumentException ''apiVersion required'')
      else Inr \<lparr>options = opts,
                priv_isDev = (case isDev opts of Some b \<Rightarrow> b | None \<Rightarrow> False)\<rparr>)"

text \<open>A \<^verbatim>\<open>ContentLink\<close>; its \<^verbatim>\<open>uri\<close> is optional.\<close>

record ContentLink =
  link_uri :: "string option"

text \<open>
  \<^verbatim>\<open>
  async getContent(contentLink: ContentLink): Promise<any> {
    const { uri } = contentLink;
    const { httpClient } = this.options;
    if (!uri) {
      throw new Error();
    }
    try {
      const response = await httpClient.get<any>({
        uri, noAuth: true, headers: { 'Access-Control-Allow-Origin': '*' },
      });
      return response;
    } catch (e: any) {
      throw new Error(e.message);
    }
  }
  \<close>
\<close>

definition content_request :: "string \<Rightarrow> HttpRequestOptions" where
  "content_request u =
     \<lparr>uri = u, headers = Some [(''Access-Control-Allow-Origin'', ''*'')], noAuth = Some True\<rparr>"

definition getContent :: "StandardRunService \<Rightarrow> ContentLink \<Rightarrow> http_call list \<Rightarrow> jsval outcome" where
  "getContent svc contentLink log =
     (case link_uri contentLink of
        None \<Rightarrow> (Inl (Error []), log)
      | Some u \<Rightarrow>
          if u = [] then (Inl (Error []), log)
          else rethrow_message (http_request (httpClient (options svc)) GET (content_request u) log))"

text \<open>
  \<^verbatim>\<open>
  private getAccessTokenHeaders = () => {
    const { accessToken } = this.options;
    if (!accessToken) {
      return undefined;
    }
    return new Headers({ Authorization: accessToken });
  };
  \<close>
\<close>

definition getAccessTokenHeaders :: "StandardRunService \<Rightarrow> (string \<times> string) list option" where
  "getAccessTokenHeaders svc =
     (case accessToken (options svc) of
        None \<Rightarrow> None
      | Some t \<Rightarrow> if t = [] then None else Some [(''Authorization'', t)])"

text \<open>
  \<^verbatim>\<open>const { nextLink, value: runs }: ArmResources<Run> = response; return { nextLink, runs };\<close>
  Destructuring \<^verbatim>\<open>null\<close> or \<^verbatim>\<open>undefined\<close> throws a TypeError, inside the
  \<^verbatim>\<open>try\<close> block. Its text is the engine's; V8's is taken here.
\<close>

record Runs =
  nextLink :: jsval
  runs :: jsval

definition destructure_message :: "string \<Rightarrow> string" where
  "destructure_message what =
     ''Cannot destructure property '' @ [apostrophe] @ ''nextLink'' @ [apostrophe] @ '' of '' @
     [apostrophe] @ ''response'' @ [apostrophe] @ '' as it is '' @ what @ ''.''"

fun arm_resources :: "jsval \<Rightarrow> exn + Runs" where
  "arm_resources JUndefined = Inl (TypeError (destructure_message ''undefined''))"
| "arm_resources JNull = Inl (TypeError (destructure_message ''null''))"
| "arm_resources response =
     Inr \<lparr>nextLink = get_prop response ''nextLink'', runs = get_prop response ''value''\<rparr>"

definition runs_page :: "jsval outcome \<Rightarrow> Runs outcome" where
  "runs_page r =
     (case r of
        (Inl e, log') \<Rightarrow> (Inl e, log')
      | (Inr response, log') \<Rightarrow> (arm_resources response, log'))"

text \<open>
  \<^verbatim>\<open>
  async getMoreRuns(continuationToken: string): Promise<Runs> {
    const headers = this.getAccessTokenHeaders();
    const { httpClient } = this.options;
    try {
      const response = await httpClient.get<ArmResources<Run>>({
        uri: continuationToken, headers: headers as Record<string, any>,
      });
      const { nextLink, value: runs }: ArmResources<Run> = response;
      return { nextLink, runs };
    } catch (e: any) {
      throw new Error(e.message);
    }
  }
  \<close>
\<close>

definition getMoreRuns :: "StandardRunService \<Rightarrow> string \<Rightarrow> http_call list \<Rightarrow> Runs outcome" where
  "getMoreRuns svc continuationToken log =
     rethrow_message (runs_page
       (http_request (httpClient (options svc)) GET
          \<lparr>uri = continuationToken, headers = getAccessTokenHeaders svc, noAuth = None\<rparr> log))"

text \<open>
  \<^verbatim>\<open>
  async getRun(runId: string): Promise<Run> {
    const { apiVersion, baseUrl, httpClient, workflowName } = this.options;
    const uri = `${baseUrl}/workflows/${workflowName}/runs/${runId}?api-version=${apiVersion}&$expand=properties/actions,workflow/properties`;
    try {
      const response = await httpClient.get<Run>({ uri });
      return response;
    } catch (e: any) {
      throw new Error(e.message);
    }
  }
  \<close>
\<close>

definition getRun_uri :: "StandardRunService \<Rightarrow> string \<Rightarrow> string" where
  "getRun_uri svc run =
     baseUrl (options svc) @ ''/workflows/'' @ workflowName (options svc) @ ''/runs/'' @ run @
     ''?api-version='' @ apiVersion (options svc) @
     ''&$expand=properties/actions,workflow/properties''"

definition getRun :: "StandardRunService \<Rightarrow> string \<Rightarrow> http_call list \<Rightarrow> jsval outcome" where
  "getRun svc run log =
     rethrow_message (http_request (httpClient (options svc)) GET
       \<lparr>uri = getRun_uri svc run, headers = None, noAuth = None\<rparr> log)"

text \<open>
  \<^verbatim>\<open>
  async getRuns(): Promise<Runs> {
    const { apiVersion, baseUrl, workflowName, httpClient } = this.options;
    const headers = this.getAccessTokenHeaders();
    const uri = `${baseUrl}/workflows/${workflowName}/runs?api-version=${apiVersion}`;
    try {
      const response = await httpClient.get<ArmResources<Run>>({
        uri, headers: headers as Record<string, any>,
      });
      const { nextLink, value: runs }: ArmResources<Run> = response;
      return { nextLink, runs };
    } catch (e: any) {
      throw new Error(e.message);
    }
  }
  \<close>
\<close>

definition getRuns_uri :: "StandardRunService \<Rightarrow> string" where
  "getRuns_uri svc =
     baseUrl (options svc) @ ''/workflows/'' @ workflowName (options svc) @
     ''/runs?api-version='' @ apiVersion (options svc)"

definition getRuns :: "StandardRunService \<Rightarrow> http_call list \<Rightarrow> Runs outcome" where
  "getRuns svc log =
     rethrow_message (runs_page
       (http_request (httpClient (options svc)) GET
          \<lparr>uri = getRuns_uri svc, headers = getAccessTokenHeaders svc, noAuth = None\<rparr> log))"

text \<open>
  The \<^verbatim>\<open>action\<close> argument \<^verbatim>\<open>{ nodeId: string; runId: string | undefined }\<close> of the two
  repetition operations.
\<close>

record action_ref =
  nodeId :: string
  runId :: "string option"

text \<open>
  \<^verbatim>\<open>
  async getScopeRepetitions(
    action: { nodeId: string; runId: string | undefined },
    status?: string
  ): Promise<{ value: Array<LogicAppsV2.RunRepetition> }> {
    const { nodeId, runId } = action;
    if (this._isDev) {
      return Promise.resolve({ value: [] });
    }
    const { apiVersion, baseUrl, httpClient } = this.options;
    const headers = this.getAccessTokenHeaders();
    const filter = status ? `&$filter=status eq '${status}'` : '';
    const uri = `${baseUrl}${runId}/actions/${nodeId}/scopeRepetitions?api-version=${apiVersion}${filter}`;
    try {
      const response = await httpClient.get<{ value: Array<LogicAppsV2.RunRepetition> }>({
        uri, headers: headers as Record<string, any>,
      });
      return response;
    } catch (e: any) {
      throw new Error(e.message);
    }
  }
  \<close>
\<close>

definition status_filter :: "string option \<Rightarrow> string" where
  "status_filter status =
     (case status of
        None \<Rightarrow> []
      | Some s \<Rightarrow>
          if s = [] then []
          else ''&$filter=status eq '' @ [apostrophe] @ s @ [apostrophe])"

definition getScopeRepetitions_uri :: "StandardRunService \<Rightarrow> action_ref \<Rightarrow> string option \<Rightarrow> string" where
  "getScopeRepetitions_uri svc action status =
     baseUrl (options svc) @ template_text (runId action) @ ''/actions/'' @ nodeId action @
     ''/scopeRepetitions?api-version='' @ apiVersion (options svc) @ status_filter status"

definition getScopeRepetitions ::
  "StandardRunService \<Rightarrow> action_ref \<Rightarrow> string option \<Rightarrow> http_call list \<Rightarrow> jsval outcome" where
  "getScopeRepetitions svc action status log =
     (if priv_isDev svc then (Inr (JObj [(''value'', JArr [])]), log)
      else rethrow_message (http_request (httpClient (options svc)) GET
             \<lparr>uri = getScopeRepetitions_uri svc action status,
              headers = getAccessTokenHeaders svc, noAuth = None\<rparr> log))"

text \<open>
  \<^verbatim>\<open>
  async getRepetition(action: { nodeId: string; runId: string | undefined }, repetitionId: string): Promise<LogicAppsV2.RunRepetition> {
    const { apiVersion, baseUrl, httpClient } = this.options;
    const { nodeId, runId } = action;
    const headers = this.getAccessTokenHeaders();
    const uri = `${baseUrl}${runId}/actions/${nodeId}/repetitions/${repetitionId}?api-version=${apiVersion}`;
    try {
      const response = await httpClient.get<LogicAppsV2.RunRepetition>({
        uri, headers: headers as Record<string, any>,
      });
      return response;
    } catch (e: any) {
      throw new Error(e.message);
    }
  }
  \<close>
\<close>

definition getRepetition_uri :: "StandardRunService \<Rightarrow> action_ref \<Rightarrow> string \<Rightarrow> string" where
  "getRepetition_uri svc action repetitionId =
     baseUrl (options svc) @ template_text (runId action) @ ''/actions/'' @ nodeId action @
     ''/repetitions/'' @ repetitionId @ ''?api-version='' @ apiVersion (options svc)"

definition getRepetition ::
  "StandardRunService \<Rightarrow> action_ref \<Rightarrow> string \<Rightarrow> http_call list \<Rightarrow> jsval outcome" where
  "getRepetition svc action repetitionId log =
     rethrow_message (http_request (httpClient (options svc)) GET
       \<lparr>uri = getRepetition_uri svc action repetitionId,
        headers = getAccessTokenHeaders svc, noAuth = None\<rparr> log)"

section \<open>Dispatching on the HTTP method\<close>

text \<open>
  \<^verbatim>\<open>String.prototype.toLowerCase\<close>. A string is its bytes here; the letters \<^verbatim>\<open>A\<close> to
  \<^verbatim>\<open>Z\<close> map to \<^verbatim>\<open>a\<close> to \<^verbatim>\<open>z\<close> and every other byte stays. (No character outside
  ASCII has a lower case made of the letters of \<^verbatim>\<open>get\<close>, \<^verbatim>\<open>post\<close> or \<^verbatim>\<open>put\<close>, so the
  dispatch below cannot tell the difference.)
\<close>

definition toLowerCase_char :: "char \<Rightarrow> char" where
  "toLowerCase_char c =
     (let n = (of_char c :: nat) in if 65 \<le> n \<and> n \<le> 90 then char_of (n + 32) else c)"

definition toLowerCase :: "string \<Rightarrow> string" where
  "toLowerCase s = map toLowerCase_char s"

text \<open>
  \<^verbatim>\<open>
  getHttpRequestByMethod(httpClient: IHttpClient, method: string, options: HttpRequestOptions<unknown>): Promise<any> {
    switch (method.toLowerCase()) {
      case 'get':
        return httpClient.get(options);
      case 'post':
        return httpClient.post(options);
      case 'put':
        return httpClient.put(options);
      default:
        throw new UnsupportedException(`Unsupported call connector method - '${method}'`);
    }
  }
  \<close>
\<close>

definition unsupported_message :: "string \<Rightarrow> string" where
  "unsupported_message method =
     ''Unsupported call connector method - '' @ [apostrophe] @ method @ [apostrophe]"

definition getHttpRequestByMethod ::
  "IHttpClient \<Rightarrow> string \<Rightarrow> HttpRequestOptions \<Rightarrow> http_call list \<Rightarrow> jsval outcome" where
  "getHttpRequestByMethod client method opts log =
     (let m = toLowerCase method in
      if m = ''get'' then http_request client GET opts log
      else if m = ''post'' then http_request client POST opts log
      else if m = ''put'' then http_request client PUT opts log
      else (Inl (UnsupportedException (unsupported_message method)), log))"

section \<open>Triggering a run\<close>

text \<open>
  Modelled from the spec: the type \<^verbatim>\<open>CallbackInfo\<close> of \<^verbatim>\<open>../workflow\<close>, the guard
  \<^verbatim>\<open>isCallbackInfoWithRelativePath\<close> and the constant \<^verbatim>\<open>HTTP_METHODS.POST\<close> of
  \<^verbatim>\<open>@microsoft/utils-logic-apps\<close> are not in the source. A callback descriptor
  ``either carries an explicit HTTP method + relative path, or is treated as a plain
  callback URL requiring POST''. The first constructor carries the method and the
  relative path, the second the URL; the guard is the test for the first constructor.
\<close>

datatype CallbackInfo =
    CallbackInfoWithRelativePath string string
  | CallbackInfoWithValue string

definition HTTP_METHODS_POST :: string where
  "HTTP_METHODS_POST = ''POST''"

text \<open>
  \<^verbatim>\<open>const method = isCallbackInfoWithRelativePath(callbackInfo) ? callbackInfo.method : HTTP_METHODS.POST;\<close>
\<close>

fun callback_method :: "CallbackInfo \<Rightarrow> string" where
  "callback_method (CallbackInfoWithRelativePath method relativePath) = method"
| "callback_method (CallbackInfoWithValue v) = HTTP_METHODS_POST"

text \<open>
  \<^verbatim>\<open>
  function getCallbackUrl(_callbackInfo: CallbackInfo): any {
    throw new Error('Function not implemented.');
  }
  \<close>
  The function never returns; a value it returned would be a URI or \<^verbatim>\<open>undefined\<close>.
\<close>

definition getCallbackUrl :: "CallbackInfo \<Rightarrow> exn + string option" where
  "getCallbackUrl callbackInfo = Inl (Error ''Function not implemented.'')"

text \<open>
  The template \<^verbatim>\<open>`${e.status} ${e?.data?.error?.message}`\<close> at a caught value. Only what
  the transport rejects with has a \<^verbatim>\<open>status\<close> and a \<^verbatim>\<open>data\<close>; a missing field is
  rendered \<^verbatim>\<open>undefined\<close>.
\<close>

fun status_text :: "exn \<Rightarrow> string" where
  "status_text (Rejected f) = (case e_status f of Some n \<Rightarrow> nat_to_string n | None \<Rightarrow> ''undefined'')"
| "status_text e = ''undefined''"

fun data_error_message_text :: "exn \<Rightarrow> string" where
  "data_error_message_text (Rejected f) = template_text (e_data_error_message f)"
| "data_error_message_text e = ''undefined''"

text \<open>
  The \<^verbatim>\<open>try\<close> block of \<^verbatim>\<open>runTrigger\<close>:
  \<^verbatim>\<open>
    try {
      await this.getHttpRequestByMethod(httpClient, method, { uri });
    } catch (e: any) {
      throw new Error(`${e.status} ${e?.data?.error?.message}`);
    }
  \<close>
\<close>

definition runTrigger_request :: "StandardRunService \<Rightarrow> string \<Rightarrow> string \<Rightarrow> http_call list \<Rightarrow> unit outcome" where
  "runTrigger_request svc method u log =
     (case getHttpRequestByMethod (httpClient (options svc)) method
             \<lparr>uri = u, headers = None, noAuth = None\<rparr> log of
        (Inl e, log') \<Rightarrow> (Inl (Error (status_text e @ '' '' @ data_error_message_text e)), log')
      | (Inr response, log') \<Rightarrow> (Inr (), log'))"

text \<open>
  \<^verbatim>\<open>
  async runTrigger(callbackInfo: CallbackInfo): Promise<void> {
    const { httpClient } = this.options;
    const method = isCallbackInfoWithRelativePath(callbackInfo) ? callbackInfo.method : HTTP_METHODS.POST;
    const uri = getCallbackUrl(callbackInfo);
    if (!uri) {
      throw new Error();
    }
    ... the try block above ...
  }
  \<close>
  The body of the method, with the function that resolves the URI as a parameter;
  \<^verbatim>\<open>runTrigger\<close> is the body at \<^verbatim>\<open>getCallbackUrl\<close>.
\<close>

definition runTrigger_with ::
  "(CallbackInfo \<Rightarrow> exn + string option) \<Rightarrow> StandardRunService \<Rightarrow> CallbackInfo \<Rightarrow>
   http_call list \<Rightarrow> unit outcome" where
  "runTrigger_with resolve svc callbackInfo log =
     (let method = callback_method callbackInfo in
      case resolve callbackInfo of
        Inl e \<Rightarrow> (Inl e, log)
      | Inr None \<Rightarrow> (Inl (Error []), log)
      | Inr (Some u) \<Rightarrow>
          if u = [] then (Inl (Error []), log)
          else runTrigger_request svc method u log)"

definition runTrigger :: "StandardRunService \<Rightarrow> CallbackInfo \<Rightarrow> http_call list \<Rightarrow> unit outcome" where
  "runTrigger svc callbackInfo log = runTrigger_with getCallbackUrl svc callbackInfo log"

section \<open>Inputs and outputs of an action\<close>

text \<open>
  The fixtures \<^verbatim>\<open>inputsResponse\<close> and \<^verbatim>\<open>outputsResponse\<close> of
  \<^verbatim>\<open>../__test__/__mocks__/monitoringInputsOutputsResponse\<close> are not in the source: they
  are parameters, two objects keyed by node id. (A node id that names a property
  inherited from \<^verbatim>\<open>Object.prototype\<close> finds a function there, which has no enumerable
  property of its own and is normalised to the empty mapping, as a missing fixture is.)
\<close>

record fixtures =
  inputsResponse :: jsval
  outputsResponse :: jsval

record action_metadata =
  inputsLink :: "ContentLink option"
  outputsLink :: "ContentLink option"

text \<open>\<^verbatim>\<open>a ?? b\<close>\<close>

definition nullish_or :: "jsval \<Rightarrow> jsval \<Rightarrow> jsval" where
  "nullish_or a b = (if a = JUndefined \<or> a = JNull then b else a)"

text \<open>\<^verbatim>\<open>link && link.uri\<close>\<close>

fun has_uri :: "ContentLink option \<Rightarrow> bool" where
  "has_uri None = False"
| "has_uri (Some l) = (case link_uri l of None \<Rightarrow> False | Some u \<Rightarrow> u \<noteq> [])"

record action_links =
  inputs :: jsval
  outputs :: jsval

text \<open>
  \<^verbatim>\<open>
  async getActionLinks(actionMetadata: { inputsLink?: ContentLink; outputsLink?: ContentLink }, nodeId: string): Promise<any> {
    const { inputsLink, outputsLink } = actionMetadata ?? {};
    let inputs: Record<string, any> = {};
    let outputs: Record<string, any> = {};
    if (this._isDev) {
      inputs = inputsResponse[nodeId] ?? {};
      outputs = outputsResponse[nodeId] ?? {};
      return Promise.resolve({ inputs: this.parseActionLink(inputs, true), outputs: this.parseActionLink(outputs, false) });
    }
    if (outputsLink && outputsLink.uri) {
      outputs = await this.getContent(outputsLink);
    }
    if (inputsLink && inputsLink.uri) {
      inputs = await this.getContent(inputsLink);
    }
    return { inputs: this.parseActionLink(inputs, true), outputs: this.parseActionLink(outputs, false) };
  }
  \<close>
\<close>

text \<open>
  One guarded fetch, \<^verbatim>\<open>if (link && link.uri) { x = await this.getContent(link); }\<close>, of a
  variable that was initialised to \<^verbatim>\<open>{}\<close>.
\<close>

definition fetch_if_linked :: "StandardRunService \<Rightarrow> ContentLink option \<Rightarrow> http_call list \<Rightarrow> jsval outcome" where
  "fetch_if_linked svc link log =
     (case link of
        None \<Rightarrow> (Inr (JObj []), log)
      | Some l \<Rightarrow> if has_uri (Some l) then getContent svc l log else (Inr (JObj []), log))"

definition getActionLinks ::
  "fixtures \<Rightarrow> StandardRunService \<Rightarrow> action_metadata option \<Rightarrow> string \<Rightarrow> http_call list \<Rightarrow> action_links outcome" where
  "getActionLinks fx svc actionMetadata node log =
     (let inputsLink' = (case actionMetadata of None \<Rightarrow> None | Some am \<Rightarrow> inputsLink am);
          outputsLink' = (case actionMetadata of None \<Rightarrow> None | Some am \<Rightarrow> outputsLink am)
      in
      if priv_isDev svc then
        (Inr \<lparr>inputs = parseActionLink (nullish_or (get_prop (inputsResponse fx) node) (JObj [])) True,
              outputs = parseActionLink (nullish_or (get_prop (outputsResponse fx) node) (JObj [])) False\<rparr>,
         log)
      else
        case fetch_if_linked svc outputsLink' log of
          (Inl e, log1) \<Rightarrow> (Inl e, log1)
        | (Inr outputs', log1) \<Rightarrow>
            (case fetch_if_linked svc inputsLink' log1 of
               (Inl e, log2) \<Rightarrow> (Inl e, log2)
             | (Inr inputs', log2) \<Rightarrow>
                 (Inr \<lparr>inputs = parseActionLink inputs' True,
                       outputs = parseActionLink outputs' False\<rparr>, log2)))"

section \<open>Pagination\<close>

text \<open>
  Modelled from the spec: the loop of a caller is not in the source. ``First page comes
  from getRuns(). [...] callers loop while nextLink is defined, using it as the next
  request's URI unmodified.'' The loop collects the runs of the pages in the order in
  which they arrive. It need not end: a server may hand out a \<^verbatim>\<open>nextLink\<close> for ever.
\<close>

fun array_items :: "jsval \<Rightarrow> jsval list" where
  "array_items (JArr xs) = xs"
| "array_items v = []"

partial_function (option) getAllRuns_from ::
  "StandardRunService \<Rightarrow> jsval list \<Rightarrow> Runs \<Rightarrow> http_call list \<Rightarrow> (jsval list) outcome option" where
  [code]: "getAllRuns_from svc acc page log =
     (case nextLink page of
        JStr link \<Rightarrow>
          (case getMoreRuns svc link log of
             (Inl e, log') \<Rightarrow> Some (Inl e, log')
           | (Inr page', log') \<Rightarrow> getAllRuns_from svc (acc @ array_items (runs page)) page' log')
      | _ \<Rightarrow> Some (Inr (acc @ array_items (runs page)), log))"

definition getAllRuns :: "StandardRunService \<Rightarrow> http_call list \<Rightarrow> (jsval list) outcome option" where
  "getAllRuns svc log =
     (case getRuns svc log of
        (Inl e, log') \<Rightarrow> Some (Inl e, log')
      | (Inr page, log') \<Rightarrow> getAllRuns_from svc [] page log')"

text \<open>
  What a server does for the loop to end: \<^term>\<open>serves svc log next chain\<close> says that, from
  the log \<^term>\<open>log\<close> on and with \<^term>\<open>next\<close> the \<^verbatim>\<open>nextLink\<close> of the page in hand, the
  transport answers the continuation requests one after the other with the envelopes of
  \<^term>\<open>chain\<close>, each requested at the link that the envelope before it carried, and that
  the last envelope carries no \<^verbatim>\<open>nextLink\<close>. The envelope declares
  \<^verbatim>\<open>nextLink?: string\<close>; a value that is not a string is no link.
\<close>

definition more_runs_call :: "StandardRunService \<Rightarrow> string \<Rightarrow> http_call" where
  "more_runs_call svc link = (GET, \<lparr>uri = link, headers = getAccessTokenHeaders svc, noAuth = None\<rparr>)"

fun serves :: "StandardRunService \<Rightarrow> http_call list \<Rightarrow> jsval \<Rightarrow> (string \<times> jsval) list \<Rightarrow> bool" where
  "serves svc log next [] = (\<not> isString next)"
| "serves svc log next ((link, page) # rest) =
     (next = JStr link \<and> page \<noteq> JNull \<and> page \<noteq> JUndefined \<and>
      httpClient (options svc) log (more_runs_call svc link) = Inr page \<and>
      serves svc (log @ [more_runs_call svc link]) (get_prop page ''nextLink'') rest)"

section \<open>Example data\<close>

text \<open>
  A configuration, four transports and two fixtures on which the theorems below are
  instantiated: a transport that rejects every call with a status and a server message,
  one that rejects every call with neither, one that answers \<^verbatim>\<open>null\<close>, and one that
  serves two pages of runs and the contents behind two links.
\<close>

definition example_options :: "IHttpClient \<Rightarrow> bool option \<Rightarrow> RunServiceOptions" where
  "example_options client dev =
     \<lparr>apiVersion = ''2018-11-01'', baseUrl = ''https://host/api'', httpClient = client,
      accessToken = Some ''token'', workflowName = ''wf'', isDev = dev\<rparr>"

definition example_service :: "IHttpClient \<Rightarrow> bool \<Rightarrow> StandardRunService" where
  "example_service client dev = \<lparr>options = example_options client (Some dev), priv_isDev = dev\<rparr>"

definition example_failure :: http_failure where
  "example_failure =
     \<lparr>e_message = ''Network Error'', e_status = Some 502, e_data_error_message = Some ''Bad Gateway''\<rparr>"

definition failing_client :: IHttpClient where
  "failing_client log call = Inl example_failure"


definition null_client :: IHttpClient where
  "null_client log call = Inr JNull"

definition example_client :: IHttpClient where
  "example_client log call =
     (if uri (snd call) = ''https://host/page2'' then
        Inr (JObj [(''value'', JArr [JStr ''run3''])])
      else if uri (snd call) = ''https://blob/out'' then Inr (JStr ''done'')
      else if uri (snd call) = ''https://blob/in'' then Inr (JObj [(''a'', JNum 1)])
      else Inr (JObj [(''nextLink'', JStr ''https://host/page2''),
                      (''value'', JArr [JStr ''run1'', JStr ''run2''])]))"

definition example_fixtures :: fixtures where
  "example_fixtures =
     \<lparr>inputsResponse = JObj [(''Compose'', JStr ''hello'')],
      outputsResponse = JObj [(''Compose'', JObj [(''a'', JNum 1)])]\<rparr>"

definition example_links :: action_metadata where
  "example_links =
     \<lparr>inputsLink = Some \<lparr>link_uri = Some ''https://blob/in''\<rparr>,
      outputsLink = Some \<lparr>link_uri = Some ''https://blob/out''\<rparr>\<rparr>"

section \<open>Properties of the normalisation\<close>

lemma set_prop_fresh: "k \<notin> fst ` set kvs \<Longrightarrow> set_prop kvs k x = kvs @ [(k, x)]"
  by (induction kvs) auto

lemma foldl_set_prop_distinct:
  "distinct ks \<Longrightarrow> set ks \<inter> fst ` set acc = {} \<Longrightarrow>
   foldl (\<lambda>prev k. set_prop prev k (f k)) acc ks = acc @ map (\<lambda>k. (k, f k)) ks"
proof (induction ks arbitrary: acc)
  case Nil
  then show ?case by simp
next
  case (Cons k ks)
  have fresh: "k \<notin> fst ` set acc" using Cons.prems(2) by auto
  have step: "set_prop acc k (f k) = acc @ [(k, f k)]" by (rule set_prop_fresh [OF fresh])
  have "set ks \<inter> fst ` set (acc @ [(k, f k)]) = {}" using Cons.prems by auto
  with Cons.IH [of "acc @ [(k, f k)]"] Cons.prems(1) step show ?case by simp
qed

lemma map_lookup_own:
  assumes "distinct (map fst kvs)"
  shows "map (\<lambda>k. (k, g k (case map_of kvs k of Some x \<Rightarrow> x | None \<Rightarrow> JUndefined))) (map fst kvs)
       = map (\<lambda>(k, x). (k, g k x)) kvs"
  using assms by (induction kvs) (auto simp: rev_image_eqI)

lemma parseActionLink_entries:
  assumes "truthy v" "\<not> isString v" "distinct (object_keys v)"
  shows "parseActionLink v b = JObj (map (\<lambda>(k, x). (k, bound_parameter k x)) (own_entries v))"
proof -
  have "foldl (\<lambda>prev k. set_prop prev k (bound_parameter k (get_prop v k))) [] (object_keys v)
        = map (\<lambda>k. (k, bound_parameter k (get_prop v k))) (object_keys v)"
    using foldl_set_prop_distinct [of "object_keys v" "[]" "\<lambda>k. bound_parameter k (get_prop v k)"] assms(3)
    by simp
  also have "\<dots> = map (\<lambda>(k, x). (k, bound_parameter k x)) (own_entries v)"
    using map_lookup_own [of "own_entries v" bound_parameter] assms(3)
    by (simp add: object_keys_def get_prop_def)
  finally show ?thesis using assms(1,2) by (simp add: parseActionLink_def)
qed

lemma parseActionLink_string:
  "s \<noteq> [] \<Longrightarrow> parseActionLink (JStr s) b =
     JObj [(if b then ''Inputs'' else ''Outputs'',
            bound_parameter (if b then ''Inputs'' else ''Outputs'') (JStr s))]"
  by (simp add: parseActionLink_def object_keys_def get_prop_def)

lemma parseActionLink_falsy: "\<not> truthy v \<Longrightarrow> parseActionLink v b = v"
  by (simp add: parseActionLink_def)

text \<open>
  C1, counterexample. The claim promises a one-entry mapping for a string input. The
  empty string is a string and is falsy: the guard \<^verbatim>\<open>if (!response)\<close> returns it
  unchanged.
\<close>

theorem parseActionLink_empty_string_counterexample:
  "parseActionLink (JStr []) True = JStr [] \<and>
   parseActionLink (JStr []) True \<noteq>
     JObj [(''Inputs'', JObj [(''displayName'', JStr ''Inputs''), (''value'', JStr [])])]"
  by (simp add: parseActionLink_def)

text \<open>
  C1, as amended. \<^verbatim>\<open>parseActionLink\<close> is a function of its two arguments alone. A falsy
  input (\<^verbatim>\<open>null\<close>, \<^verbatim>\<open>undefined\<close>, and also the empty string, \<^verbatim>\<open>0\<close> and \<^verbatim>\<open>false\<close>)
  is returned unchanged. A non-empty string becomes the one-entry mapping under
  \<^verbatim>\<open>Inputs\<close> when \<^verbatim>\<open>isInput\<close> holds and under \<^verbatim>\<open>Outputs\<close> otherwise, the entry being
  \<^verbatim>\<open>{ displayName: key, value: the string }\<close>. An object becomes the mapping with the
  same keys in the same order, each key \<^verbatim>\<open>k\<close> going to
  \<^verbatim>\<open>{ displayName: k, value: the value at k }\<close>, whatever \<^verbatim>\<open>isInput\<close> is; the same holds of
  any truthy value that is not a string, over its own enumerable properties.
\<close>

theorem parseActionLink_normalises:
  "(\<not> truthy response \<longrightarrow> parseActionLink response isInput = response) \<and>
   (s \<noteq> [] \<longrightarrow>
      parseActionLink (JStr s) isInput =
        (if isInput
         then JObj [(''Inputs'', JObj [(''displayName'', JStr ''Inputs''), (''value'', JStr s)])]
         else JObj [(''Outputs'', JObj [(''displayName'', JStr ''Outputs''), (''value'', JStr s)])])) \<and>
   (distinct (map fst kvs) \<longrightarrow>
      parseActionLink (JObj kvs) isInput =
        JObj (map (\<lambda>(k, x). (k, JObj [(''displayName'', JStr k), (''value'', x)])) kvs)) \<and>
   (truthy response \<and> \<not> isString response \<and> distinct (object_keys response) \<longrightarrow>
      parseActionLink response isInput =
        JObj (map (\<lambda>(k, x). (k, JObj [(''displayName'', JStr k), (''value'', x)])) (own_entries response)))"
proof (intro conjI impI)
  assume "\<not> truthy response"
  then show "parseActionLink response isInput = response" by (rule parseActionLink_falsy)
next
  assume "s \<noteq> []"
  then show "parseActionLink (JStr s) isInput =
        (if isInput
         then JObj [(''Inputs'', JObj [(''displayName'', JStr ''Inputs''), (''value'', JStr s)])]
         else JObj [(''Outputs'', JObj [(''displayName'', JStr ''Outputs''), (''value'', JStr s)])])"
    by (simp add: parseActionLink_string bound_parameter_def)
next
  assume "distinct (map fst kvs)"
  then show "parseActionLink (JObj kvs) isInput =
        JObj (map (\<lambda>(k, x). (k, JObj [(''displayName'', JStr k), (''value'', x)])) kvs)"
    using parseActionLink_entries [of "JObj kvs" isInput]
    by (simp add: object_keys_def bound_parameter_def)
next
  assume "truthy response \<and> \<not> isString response \<and> distinct (object_keys response)"
  then show "parseActionLink response isInput =
        JObj (map (\<lambda>(k, x). (k, JObj [(''displayName'', JStr k), (''value'', x)])) (own_entries response))"
    using parseActionLink_entries [of response isInput]
    by (simp add: bound_parameter_def)
qed

text \<open>The instances of the specification's examples.\<close>

theorem parseActionLink_normalises_witness:
  "parseActionLink JNull True = JNull \<and>
   parseActionLink (JStr ''hello'') True =
     JObj [(''Inputs'', JObj [(''displayName'', JStr ''Inputs''), (''value'', JStr ''hello'')])] \<and>
   parseActionLink (JStr ''hello'') False =
     JObj [(''Outputs'', JObj [(''displayName'', JStr ''Outputs''), (''value'', JStr ''hello'')])] \<and>
   parseActionLink (JObj [(''a'', JNum 1), (''b'', JNum 2)]) False =
     JObj [(''a'', JObj [(''displayName'', JStr ''a''), (''value'', JNum 1)]),
           (''b'', JObj [(''displayName'', JStr ''b''), (''value'', JNum 2)])] \<and>
   parseActionLink (JBool True) True = JObj []"
  using parseActionLink_normalises [of JNull True "''hello''" "[(''a'', JNum 1), (''b'', JNum 2)]"]
        parseActionLink_normalises [of "JBool True" False "''hello''" "[(''a'', JNum 1), (''b'', JNum 2)]"]
        parseActionLink_normalises [of "JBool True" True "''hello''" "[]"]
  by (simp add: object_keys_def)

section \<open>Properties of the transport wrappers\<close>

lemma rethrow_message_rejected:
  "client log (verb, opts) = Inl f \<Longrightarrow>
   rethrow_message (http_request client verb opts log) =
     (Inl (Error (e_message f)), log @ [(verb, opts)])"
  by (simp add: rethrow_message_def http_request_def)

lemma rethrow_message_resolved:
  "client log (verb, opts) = Inr body \<Longrightarrow>
   rethrow_message (http_request client verb opts log) = (Inr body, log @ [(verb, opts)])"
  by (simp add: rethrow_message_def http_request_def)

lemma arm_resources_object:
  "response \<noteq> JNull \<Longrightarrow> response \<noteq> JUndefined \<Longrightarrow>
   arm_resources response =
     Inr \<lparr>nextLink = get_prop response ''nextLink'', runs = get_prop response ''value''\<rparr>"
  by (cases response) simp_all

lemma runs_page_resolved:
  "client log (verb, opts) = Inr response \<Longrightarrow> response \<noteq> JNull \<Longrightarrow> response \<noteq> JUndefined \<Longrightarrow>
   rethrow_message (runs_page (http_request client verb opts log)) =
     (Inr \<lparr>nextLink = get_prop response ''nextLink'', runs = get_prop response ''value''\<rparr>,
      log @ [(verb, opts)])"
  by (simp add: rethrow_message_def runs_page_def http_request_def arm_resources_object)

lemma snd_rethrow_message: "snd (rethrow_message r) = snd r"
  by (cases r) (auto simp: rethrow_message_def split: sum.splits)

lemma snd_runs_page: "snd (runs_page r) = snd r"
  by (cases r) (auto simp: runs_page_def split: sum.splits)

lemma snd_http_request: "snd (http_request client verb opts log) = log @ [(verb, opts)]"
  by (simp add: http_request_def)

lemma rethrow_message_runs_page_rejected:
  "client log (verb, opts) = Inl f \<Longrightarrow>
   rethrow_message (runs_page (http_request client verb opts log)) =
     (Inl (Error (e_message f)), log @ [(verb, opts)])"
  by (simp add: rethrow_message_def runs_page_def http_request_def)

section \<open>Construction\<close>

text \<open>
  C2. Constructing the service fails with an \<^verbatim>\<open>ArgumentException\<close> when \<^verbatim>\<open>baseUrl\<close> is
  empty (message \<^verbatim>\<open>baseUrl required\<close>) and when \<^verbatim>\<open>apiVersion\<close> is empty (message
  \<^verbatim>\<open>apiVersion required\<close> when \<^verbatim>\<open>baseUrl\<close> is not empty as well). With both non-empty
  it succeeds whatever \<^verbatim>\<open>isDev\<close> is, keeps the options, and stores as the dev flag the
  value of \<^verbatim>\<open>isDev\<close> when it is supplied and \<^verbatim>\<open>false\<close> otherwise.
\<close>

theorem constructor_validates:
  "(baseUrl opts = [] \<or> apiVersion opts = [] \<longrightarrow>
      (\<exists>m. new_StandardRunService opts = Inl (ArgumentException m))) \<and>
   (baseUrl opts = [] \<longrightarrow>
      new_StandardRunService opts = Inl (ArgumentException ''baseUrl required'')) \<and>
   (baseUrl opts \<noteq> [] \<and> apiVersion opts = [] \<longrightarrow>
      new_StandardRunService opts = Inl (ArgumentException ''apiVersion required'')) \<and>
   (baseUrl opts \<noteq> [] \<and> apiVersion opts \<noteq> [] \<longrightarrow>
      new_StandardRunService opts =
        Inr \<lparr>options = opts, priv_isDev = (isDev opts = Some True)\<rparr>)"
  by (cases "isDev opts") (auto simp: new_StandardRunService_def)

text \<open>An empty base URL, an empty API version, and the three values of the dev flag.\<close>

theorem constructor_validates_witness:
  "(\<exists>m. new_StandardRunService (example_options failing_client None\<lparr>baseUrl := []\<rparr>) = Inl (ArgumentException m)) \<and>
   new_StandardRunService (example_options failing_client (Some True)\<lparr>apiVersion := []\<rparr>) =
     Inl (ArgumentException ''apiVersion required'') \<and>
   new_StandardRunService (example_options failing_client None) =
     Inr \<lparr>options = example_options failing_client None, priv_isDev = False\<rparr> \<and>
   new_StandardRunService (example_options failing_client (Some True)) =
     Inr \<lparr>options = example_options failing_client (Some True), priv_isDev = True\<rparr> \<and>
   new_StandardRunService (example_options failing_client (Some False)) =
     Inr \<lparr>options = example_options failing_client (Some False), priv_isDev = False\<rparr>"
  using constructor_validates [of "example_options failing_client None\<lparr>baseUrl := []\<rparr>"]
        constructor_validates [of "example_options failing_client (Some True)\<lparr>apiVersion := []\<rparr>"]
        constructor_validates [of "example_options failing_client None"]
        constructor_validates [of "example_options failing_client (Some True)"]
        constructor_validates [of "example_options failing_client (Some False)"]
  by (simp add: example_options_def)

section \<open>Run history and pagination\<close>

lemma getMoreRuns_resolved:
  "httpClient (options svc) log (more_runs_call svc link) = Inr response \<Longrightarrow>
   response \<noteq> JNull \<Longrightarrow> response \<noteq> JUndefined \<Longrightarrow>
   getMoreRuns svc link log =
     (Inr \<lparr>nextLink = get_prop response ''nextLink'', runs = get_prop response ''value''\<rparr>,
      log @ [more_runs_call svc link])"
  by (simp add: getMoreRuns_def more_runs_call_def runs_page_resolved)

lemma getAllRuns_from_serves:
  "serves svc log (nextLink page) chain \<Longrightarrow>
   getAllRuns_from svc acc page log =
     Some (Inr (acc @ array_items (runs page) @
                concat (map (\<lambda>(link, p). array_items (get_prop p ''value'')) chain)),
           log @ map (\<lambda>(link, p). more_runs_call svc link) chain)"
proof (induction chain arbitrary: acc page log)
  case Nil
  then show ?case by (subst getAllRuns_from.simps) (cases "nextLink page", simp_all)
next
  case (Cons lp rest)
  obtain link p where lp: "lp = (link, p)" by (cases lp)
  from Cons.prems lp have link: "nextLink page = JStr link"
    and ok: "p \<noteq> JNull" "p \<noteq> JUndefined"
    and answer: "httpClient (options svc) log (more_runs_call svc link) = Inr p"
    and rest: "serves svc (log @ [more_runs_call svc link]) (get_prop p ''nextLink'') rest"
    by simp_all
  let ?page' = "\<lparr>nextLink = get_prop p ''nextLink'', runs = get_prop p ''value''\<rparr>"
  have more: "getMoreRuns svc link log = (Inr ?page', log @ [more_runs_call svc link])"
    by (rule getMoreRuns_resolved [OF answer ok])
  have step: "getAllRuns_from svc acc page log =
      getAllRuns_from svc (acc @ array_items (runs page)) ?page' (log @ [more_runs_call svc link])"
    by (subst getAllRuns_from.simps) (simp add: link more)
  have "serves svc (log @ [more_runs_call svc link]) (nextLink ?page') rest"
    using rest by simp
  from Cons.IH [OF this, of "acc @ array_items (runs page)"] step lp
  show ?case by simp
qed



lemma getMoreRuns_InrD:
  assumes "getMoreRuns svc link log = (Inr page', log')"
  shows "\<exists>p. httpClient (options svc) log (more_runs_call svc link) = Inr p \<and>
             p \<noteq> JNull \<and> p \<noteq> JUndefined \<and>
             page' = \<lparr>nextLink = get_prop p ''nextLink'', runs = get_prop p ''value''\<rparr> \<and>
             log' = log @ [more_runs_call svc link]"
proof (cases "httpClient (options svc) log (more_runs_call svc link)")
  case (Inl f)
  with assms show ?thesis
    by (simp add: getMoreRuns_def more_runs_call_def rethrow_message_def runs_page_def http_request_def)
next
  case (Inr p)
  with assms show ?thesis
    by (cases p)
       (simp_all add: getMoreRuns_def more_runs_call_def rethrow_message_def runs_page_def
          http_request_def)
qed


lemma getAllRuns_from_SomeD:
  assumes "getAllRuns_from svc acc page log = Some (Inr rs, log')"
  shows "\<exists>chain. serves svc log (nextLink page) chain \<and>
           rs = acc @ array_items (runs page) @
                concat (map (\<lambda>(link, p). array_items (get_prop p ''value'')) chain) \<and>
           log' = log @ map (\<lambda>(link, p). more_runs_call svc link) chain"
proof -
  let ?P = "\<lambda>svc acc page log (y :: (jsval list) outcome). \<forall>rs log'. y = (Inr rs, log') \<longrightarrow>
      (\<exists>chain. serves svc log (nextLink page) chain \<and>
         rs = acc @ array_items (runs page) @
              concat (map (\<lambda>(link, p). array_items (get_prop p ''value'')) chain) \<and>
         log' = log @ map (\<lambda>(link, p). more_runs_call svc link) chain)"
  have "?P svc acc page log (Inr rs, log')"
  proof (rule getAllRuns_from.raw_induct [where P = ?P, OF _ assms])
    fix loop :: "StandardRunService \<Rightarrow> jsval list \<Rightarrow> Runs \<Rightarrow> http_call list \<Rightarrow> (jsval list) outcome option"
    fix svc acc page log y
    assume IH: "\<And>svc acc page log y. loop svc acc page log = Some y \<Longrightarrow> ?P svc acc page log y"
    assume body: "(case nextLink page of
        JStr link \<Rightarrow>
          (case getMoreRuns svc link log of
             (Inl e, log') \<Rightarrow> Some (Inl e, log')
           | (Inr page', log') \<Rightarrow> loop svc (acc @ array_items (runs page)) page' log')
      | _ \<Rightarrow> Some (Inr (acc @ array_items (runs page)), log)) = Some y"
    show "?P svc acc page log y"
    proof (intro allI impI)
      fix rs log'
      assume y: "y = (Inr rs, log')"
      show "\<exists>chain. serves svc log (nextLink page) chain \<and>
           rs = acc @ array_items (runs page) @
                concat (map (\<lambda>(link, p). array_items (get_prop p ''value'')) chain) \<and>
           log' = log @ map (\<lambda>(link, p). more_runs_call svc link) chain"
      proof (cases "isString (nextLink page)")
        case False
        then have "y = (Inr (acc @ array_items (runs page)), log)"
          using body by (cases "nextLink page") simp_all
        with y False have "serves svc log (nextLink page) [] \<and>
           rs = acc @ array_items (runs page) @
                concat (map (\<lambda>(link, p). array_items (get_prop p ''value'')) []) \<and>
           log' = log @ map (\<lambda>(link, p). more_runs_call svc link) []"
          by simp
        then show ?thesis by blast
      next
        case True
        then obtain link where link: "nextLink page = JStr link"
          by (cases "nextLink page") simp_all
        obtain r log1 where more: "getMoreRuns svc link log = (r, log1)"
          by (cases "getMoreRuns svc link log")
        show ?thesis
        proof (cases r)
          case (Inl e)
          with body link more y show ?thesis by simp
        next
          case (Inr page')
          with body link more
          have rec: "loop svc (acc @ array_items (runs page)) page' log1 = Some y" by simp
          from getMoreRuns_InrD [OF more [unfolded Inr]]
          obtain p where p: "httpClient (options svc) log (more_runs_call svc link) = Inr p"
              "p \<noteq> JNull" "p \<noteq> JUndefined"
              "page' = \<lparr>nextLink = get_prop p ''nextLink'', runs = get_prop p ''value''\<rparr>"
              "log1 = log @ [more_runs_call svc link]"
            by blast
          from IH [OF rec] y
          obtain chain where chain: "serves svc log1 (nextLink page') chain"
              "rs = (acc @ array_items (runs page)) @ array_items (runs page') @
                    concat (map (\<lambda>(link, p). array_items (get_prop p ''value'')) chain)"
              "log' = log1 @ map (\<lambda>(link, p). more_runs_call svc link) chain"
            by blast
          have "serves svc log (nextLink page) ((link, p) # chain) \<and>
            rs = acc @ array_items (runs page) @
                concat (map (\<lambda>(link, p). array_items (get_prop p ''value'')) ((link, p) # chain)) \<and>
            log' = log @ map (\<lambda>(link, p). more_runs_call svc link) ((link, p) # chain)"
            using chain p link by simp
          then show ?thesis by blast
        qed
      qed
    qed
  qed
  then show ?thesis by blast
qed

lemma getRuns_InrD:
  assumes "getRuns svc log = (Inr page, log')"
  shows "\<exists>p. httpClient (options svc) log
               (GET, \<lparr>uri = getRuns_uri svc, headers = getAccessTokenHeaders svc, noAuth = None\<rparr>) = Inr p \<and>
             p \<noteq> JNull \<and> p \<noteq> JUndefined \<and>
             page = \<lparr>nextLink = get_prop p ''nextLink'', runs = get_prop p ''value''\<rparr> \<and>
             log' = log @ [(GET, \<lparr>uri = getRuns_uri svc, headers = getAccessTokenHeaders svc, noAuth = None\<rparr>)]"
proof (cases "httpClient (options svc) log
               (GET, \<lparr>uri = getRuns_uri svc, headers = getAccessTokenHeaders svc, noAuth = None\<rparr>)")
  case (Inl f)
  with assms show ?thesis
    by (simp add: getRuns_def rethrow_message_def runs_page_def http_request_def)
next
  case (Inr p)
  with assms show ?thesis
    by (cases p)
       (simp_all add: getRuns_def rethrow_message_def runs_page_def http_request_def)
qed

lemma map_more_runs_call:
  "map (\<lambda>(link, p). more_runs_call svc link) chain =
   map (\<lambda>(link, p). (GET, \<lparr>uri = link, headers = getAccessTokenHeaders svc, noAuth = None\<rparr>)) chain"
  by (simp add: more_runs_call_def)

lemma map_page_items:
  "map (\<lambda>(link, p). array_items (get_prop p ''value'')) chain =
   map (\<lambda>p. array_items (get_prop p ''value'')) (map snd chain)"
  by (induction chain) auto

lemma getAllRuns_iff:
  "getAllRuns svc log = Some (Inr rs, log') \<longleftrightarrow>
     (\<exists>response chain.
        httpClient (options svc) log
          (GET, \<lparr>uri = getRuns_uri svc, headers = getAccessTokenHeaders svc, noAuth = None\<rparr>) = Inr response \<and>
        response \<noteq> JNull \<and> response \<noteq> JUndefined \<and>
        serves svc
          (log @ [(GET, \<lparr>uri = getRuns_uri svc, headers = getAccessTokenHeaders svc, noAuth = None\<rparr>)])
          (get_prop response ''nextLink'') chain \<and>
        rs = concat (map (\<lambda>p. array_items (get_prop p ''value'')) (response # map snd chain)) \<and>
        log' = log @ (GET, \<lparr>uri = getRuns_uri svc, headers = getAccessTokenHeaders svc, noAuth = None\<rparr>) #
                     map (\<lambda>(link, p). (GET, \<lparr>uri = link, headers = getAccessTokenHeaders svc, noAuth = None\<rparr>)) chain)"
  (is "?lhs \<longleftrightarrow> ?rhs")
proof
  let ?call = "(GET, \<lparr>uri = getRuns_uri svc, headers = getAccessTokenHeaders svc, noAuth = None\<rparr>)"
  assume l: ?lhs
  obtain r log1 where first: "getRuns svc log = (r, log1)" by (cases "getRuns svc log")
  show ?rhs
  proof (cases r)
    case (Inl e)
    with l first show ?thesis by (simp add: getAllRuns_def)
  next
    case (Inr page)
    with l first have loop: "getAllRuns_from svc [] page log1 = Some (Inr rs, log')"
      by (simp add: getAllRuns_def)
    from getRuns_InrD [OF first [unfolded Inr]]
    obtain p where p: "httpClient (options svc) log ?call = Inr p" "p \<noteq> JNull" "p \<noteq> JUndefined"
        "page = \<lparr>nextLink = get_prop p ''nextLink'', runs = get_prop p ''value''\<rparr>"
        "log1 = log @ [?call]"
      by blast
    from getAllRuns_from_SomeD [OF loop]
    obtain chain where chain: "serves svc log1 (nextLink page) chain"
        "rs = [] @ array_items (runs page) @
              concat (map (\<lambda>(link, p). array_items (get_prop p ''value'')) chain)"
        "log' = log1 @ map (\<lambda>(link, p). more_runs_call svc link) chain"
      by blast
    have "httpClient (options svc) log ?call = Inr p \<and> p \<noteq> JNull \<and> p \<noteq> JUndefined \<and>
        serves svc (log @ [?call]) (get_prop p ''nextLink'') chain \<and>
        rs = concat (map (\<lambda>p. array_items (get_prop p ''value'')) (p # map snd chain)) \<and>
        log' = log @ ?call #
                     map (\<lambda>(link, p). (GET, \<lparr>uri = link, headers = getAccessTokenHeaders svc, noAuth = None\<rparr>)) chain"
      using p chain by (simp add: map_more_runs_call map_page_items)
    then show ?thesis by blast
  qed
next
  let ?call = "(GET, \<lparr>uri = getRuns_uri svc, headers = getAccessTokenHeaders svc, noAuth = None\<rparr>)"
  assume ?rhs
  then obtain response chain where h:
      "httpClient (options svc) log ?call = Inr response" "response \<noteq> JNull" "response \<noteq> JUndefined"
      "serves svc (log @ [?call]) (get_prop response ''nextLink'') chain"
      "rs = concat (map (\<lambda>p. array_items (get_prop p ''value'')) (response # map snd chain))"
      "log' = log @ ?call #
                map (\<lambda>(link, p). (GET, \<lparr>uri = link, headers = getAccessTokenHeaders svc, noAuth = None\<rparr>)) chain"
    by blast
  let ?page = "\<lparr>nextLink = get_prop response ''nextLink'', runs = get_prop response ''value''\<rparr>"
  have first: "getRuns svc log = (Inr ?page, log @ [?call])"
    using h(1-3) by (simp add: getRuns_def runs_page_resolved)
  have "serves svc (log @ [?call]) (nextLink ?page) chain" using h(4) by simp
  from getAllRuns_from_serves [OF this, of "[]"]
  have "getAllRuns_from svc [] ?page (log @ [?call]) =
      Some (Inr (array_items (get_prop response ''value'') @
                 concat (map (\<lambda>(link, p). array_items (get_prop p ''value'')) chain)),
            (log @ [?call]) @ map (\<lambda>(link, p). more_runs_call svc link) chain)"
    by simp
  then show ?lhs
    using h(5,6) by (simp add: getAllRuns_def first map_more_runs_call map_page_items)
qed

text \<open>
  C3. \<^verbatim>\<open>getRuns\<close> makes exactly one call, a GET of
  \<^verbatim>\<open>{baseUrl}/workflows/{workflowName}/runs?api-version={apiVersion}\<close>, and \<^verbatim>\<open>getMoreRuns\<close>
  exactly one, a GET whose URI is the continuation token as it is. When the transport
  answers with an envelope (anything but \<^verbatim>\<open>null\<close> and \<^verbatim>\<open>undefined\<close>), both return
  \<^verbatim>\<open>{ nextLink, runs }\<close> with the envelope's \<^verbatim>\<open>nextLink\<close> and \<^verbatim>\<open>value\<close>. Hence the
  caller's loop, \<^verbatim>\<open>getRuns\<close> and then \<^verbatim>\<open>getMoreRuns\<close> on each returned \<^verbatim>\<open>nextLink\<close>, ends
  with a result exactly when the transport serves a first envelope and then a chain of
  envelopes, each at the link of the one before, the last of which has no \<^verbatim>\<open>nextLink\<close>;
  its result is then the runs of these envelopes, concatenated in the order of arrival,
  and it has made one call per envelope.
\<close>

theorem runs_pagination:
  "snd (getRuns svc log) =
     log @ [(GET, \<lparr>uri = baseUrl (options svc) @ ''/workflows/'' @ workflowName (options svc) @
                         ''/runs?api-version='' @ apiVersion (options svc),
                   headers = getAccessTokenHeaders svc, noAuth = None\<rparr>)] \<and>
   snd (getMoreRuns svc continuationToken log) =
     log @ [(GET, \<lparr>uri = continuationToken, headers = getAccessTokenHeaders svc, noAuth = None\<rparr>)] \<and>
   (httpClient (options svc) log
      (GET, \<lparr>uri = getRuns_uri svc, headers = getAccessTokenHeaders svc, noAuth = None\<rparr>) = Inr envelope \<and>
    envelope \<noteq> JNull \<and> envelope \<noteq> JUndefined \<longrightarrow>
      fst (getRuns svc log) =
        Inr \<lparr>nextLink = get_prop envelope ''nextLink'', runs = get_prop envelope ''value''\<rparr>) \<and>
   (httpClient (options svc) log
      (GET, \<lparr>uri = continuationToken, headers = getAccessTokenHeaders svc, noAuth = None\<rparr>) = Inr envelope \<and>
    envelope \<noteq> JNull \<and> envelope \<noteq> JUndefined \<longrightarrow>
      fst (getMoreRuns svc continuationToken log) =
        Inr \<lparr>nextLink = get_prop envelope ''nextLink'', runs = get_prop envelope ''value''\<rparr>) \<and>
   (getAllRuns svc log = Some (Inr rs, log') \<longleftrightarrow>
     (\<exists>response chain.
        httpClient (options svc) log
          (GET, \<lparr>uri = getRuns_uri svc, headers = getAccessTokenHeaders svc, noAuth = None\<rparr>) = Inr response \<and>
        response \<noteq> JNull \<and> response \<noteq> JUndefined \<and>
        serves svc
          (log @ [(GET, \<lparr>uri = getRuns_uri svc, headers = getAccessTokenHeaders svc, noAuth = None\<rparr>)])
          (get_prop response ''nextLink'') chain \<and>
        rs = concat (map (\<lambda>p. array_items (get_prop p ''value'')) (response # map snd chain)) \<and>
        log' = log @ (GET, \<lparr>uri = getRuns_uri svc, headers = getAccessTokenHeaders svc, noAuth = None\<rparr>) #
                     map (\<lambda>(link, p). (GET, \<lparr>uri = link, headers = getAccessTokenHeaders svc, noAuth = None\<rparr>)) chain))"
proof (intro conjI impI)
  show "snd (getRuns svc log) =
     log @ [(GET, \<lparr>uri = baseUrl (options svc) @ ''/workflows/'' @ workflowName (options svc) @
                         ''/runs?api-version='' @ apiVersion (options svc),
                   headers = getAccessTokenHeaders svc, noAuth = None\<rparr>)]"
    by (simp add: getRuns_def getRuns_uri_def snd_rethrow_message snd_runs_page snd_http_request)
next
  show "snd (getMoreRuns svc continuationToken log) =
     log @ [(GET, \<lparr>uri = continuationToken, headers = getAccessTokenHeaders svc, noAuth = None\<rparr>)]"
    by (simp add: getMoreRuns_def snd_rethrow_message snd_runs_page snd_http_request)
next
  assume "httpClient (options svc) log
      (GET, \<lparr>uri = getRuns_uri svc, headers = getAccessTokenHeaders svc, noAuth = None\<rparr>) = Inr envelope \<and>
    envelope \<noteq> JNull \<and> envelope \<noteq> JUndefined"
  then show "fst (getRuns svc log) =
        Inr \<lparr>nextLink = get_prop envelope ''nextLink'', runs = get_prop envelope ''value''\<rparr>"
    by (simp add: getRuns_def runs_page_resolved)
next
  assume "httpClient (options svc) log
      (GET, \<lparr>uri = continuationToken, headers = getAccessTokenHeaders svc, noAuth = None\<rparr>) = Inr envelope \<and>
    envelope \<noteq> JNull \<and> envelope \<noteq> JUndefined"
  then show "fst (getMoreRuns svc continuationToken log) =
        Inr \<lparr>nextLink = get_prop envelope ''nextLink'', runs = get_prop envelope ''value''\<rparr>"
    by (simp add: getMoreRuns_def runs_page_resolved)
next
  show "getAllRuns svc log = Some (Inr rs, log') \<longleftrightarrow>
     (\<exists>response chain.
        httpClient (options svc) log
          (GET, \<lparr>uri = getRuns_uri svc, headers = getAccessTokenHeaders svc, noAuth = None\<rparr>) = Inr response \<and>
        response \<noteq> JNull \<and> response \<noteq> JUndefined \<and>
        serves svc
          (log @ [(GET, \<lparr>uri = getRuns_uri svc, headers = getAccessTokenHeaders svc, noAuth = None\<rparr>)])
          (get_prop response ''nextLink'') chain \<and>
        rs = concat (map (\<lambda>p. array_items (get_prop p ''value'')) (response # map snd chain)) \<and>
        log' = log @ (GET, \<lparr>uri = getRuns_uri svc, headers = getAccessTokenHeaders svc, noAuth = None\<rparr>) #
                     map (\<lambda>(link, p). (GET, \<lparr>uri = link, headers = getAccessTokenHeaders svc, noAuth = None\<rparr>)) chain)"
    by (rule getAllRuns_iff)
qed

text \<open>Two pages: the first links to the second, the second has no link.\<close>

theorem runs_pagination_witness:
  "getRuns (example_service example_client False) [] =
     (Inr \<lparr>nextLink = JStr ''https://host/page2'', runs = JArr [JStr ''run1'', JStr ''run2'']\<rparr>,
      [(GET, \<lparr>uri = ''https://host/api/workflows/wf/runs?api-version=2018-11-01'',
              headers = Some [(''Authorization'', ''token'')], noAuth = None\<rparr>)]) \<and>
   getAllRuns (example_service example_client False) [] =
     Some (Inr [JStr ''run1'', JStr ''run2'', JStr ''run3''],
           [(GET, \<lparr>uri = ''https://host/api/workflows/wf/runs?api-version=2018-11-01'',
                   headers = Some [(''Authorization'', ''token'')], noAuth = None\<rparr>),
            (GET, \<lparr>uri = ''https://host/page2'',
                   headers = Some [(''Authorization'', ''token'')], noAuth = None\<rparr>)])"
proof -
  let ?svc = "example_service example_client False"
  let ?page1 = "JObj [(''nextLink'', JStr ''https://host/page2''),
                      (''value'', JArr [JStr ''run1'', JStr ''run2''])]"
  let ?page2 = "JObj [(''value'', JArr [JStr ''run3''])]"
  let ?rs = "[JStr ''run1'', JStr ''run2'', JStr ''run3'']"
  let ?log = "[(GET, \<lparr>uri = ''https://host/api/workflows/wf/runs?api-version=2018-11-01'',
                   headers = Some [(''Authorization'', ''token'')], noAuth = None\<rparr>),
            (GET, \<lparr>uri = ''https://host/page2'',
                   headers = Some [(''Authorization'', ''token'')], noAuth = None\<rparr>)]"
  have uri: "getRuns_uri ?svc = ''https://host/api/workflows/wf/runs?api-version=2018-11-01''"
    by (simp add: getRuns_uri_def example_service_def example_options_def)
  have hdr: "getAccessTokenHeaders ?svc = Some [(''Authorization'', ''token'')]"
    by (simp add: getAccessTokenHeaders_def example_service_def example_options_def)
  have client: "httpClient (options ?svc) = example_client"
    by (simp add: example_service_def example_options_def)
  note facts = runs_pagination [of ?svc "[]" "''https://host/page2''" ?page1 ?rs ?log]
  have first: "httpClient (options ?svc) []
      (GET, \<lparr>uri = getRuns_uri ?svc, headers = getAccessTokenHeaders ?svc, noAuth = None\<rparr>) = Inr ?page1"
    by (simp add: uri hdr client example_client_def)
  have opts: "baseUrl (options ?svc) = ''https://host/api''" "workflowName (options ?svc) = ''wf''"
      "apiVersion (options ?svc) = ''2018-11-01''"
    by (simp_all add: example_service_def example_options_def)
  have "fst (getRuns ?svc []) =
      Inr \<lparr>nextLink = get_prop ?page1 ''nextLink'', runs = get_prop ?page1 ''value''\<rparr>"
    using facts [THEN conjunct2, THEN conjunct2, THEN conjunct1] first by simp
  moreover have "snd (getRuns ?svc []) =
      [(GET, \<lparr>uri = ''https://host/api/workflows/wf/runs?api-version=2018-11-01'',
              headers = Some [(''Authorization'', ''token'')], noAuth = None\<rparr>)]"
    using facts [THEN conjunct1] by (simp add: hdr opts)
  ultimately have one: "getRuns ?svc [] =
     (Inr \<lparr>nextLink = JStr ''https://host/page2'', runs = JArr [JStr ''run1'', JStr ''run2'']\<rparr>,
      [(GET, \<lparr>uri = ''https://host/api/workflows/wf/runs?api-version=2018-11-01'',
              headers = Some [(''Authorization'', ''token'')], noAuth = None\<rparr>)])"
    by (cases "getRuns ?svc []") (simp add: get_prop_def)
  have "httpClient (options ?svc) []
          (GET, \<lparr>uri = getRuns_uri ?svc, headers = getAccessTokenHeaders ?svc, noAuth = None\<rparr>) = Inr ?page1 \<and>
        ?page1 \<noteq> JNull \<and> ?page1 \<noteq> JUndefined \<and>
        serves ?svc
          ([] @ [(GET, \<lparr>uri = getRuns_uri ?svc, headers = getAccessTokenHeaders ?svc, noAuth = None\<rparr>)])
          (get_prop ?page1 ''nextLink'') [(''https://host/page2'', ?page2)] \<and>
        ?rs = concat (map (\<lambda>p. array_items (get_prop p ''value''))
                (?page1 # map snd [(''https://host/page2'', ?page2)])) \<and>
        ?log = [] @ (GET, \<lparr>uri = getRuns_uri ?svc, headers = getAccessTokenHeaders ?svc, noAuth = None\<rparr>) #
                     map (\<lambda>(link, p). (GET, \<lparr>uri = link, headers = getAccessTokenHeaders ?svc, noAuth = None\<rparr>))
                       [(''https://host/page2'', ?page2)]"
    by (simp add: uri hdr client example_client_def get_prop_def more_runs_call_def)
  then have "\<exists>response chain.
        httpClient (options ?svc) []
          (GET, \<lparr>uri = getRuns_uri ?svc, headers = getAccessTokenHeaders ?svc, noAuth = None\<rparr>) = Inr response \<and>
        response \<noteq> JNull \<and> response \<noteq> JUndefined \<and>
        serves ?svc
          ([] @ [(GET, \<lparr>uri = getRuns_uri ?svc, headers = getAccessTokenHeaders ?svc, noAuth = None\<rparr>)])
          (get_prop response ''nextLink'') chain \<and>
        ?rs = concat (map (\<lambda>p. array_items (get_prop p ''value'')) (response # map snd chain)) \<and>
        ?log = [] @ (GET, \<lparr>uri = getRuns_uri ?svc, headers = getAccessTokenHeaders ?svc, noAuth = None\<rparr>) #
                     map (\<lambda>(link, p). (GET, \<lparr>uri = link, headers = getAccessTokenHeaders ?svc, noAuth = None\<rparr>)) chain"
    by blast
  with facts [THEN conjunct2, THEN conjunct2, THEN conjunct2, THEN conjunct2]
  have "getAllRuns ?svc [] = Some (Inr ?rs, ?log)" by blast
  with one show ?thesis by simp
qed

section \<open>Triggering a run\<close>




text \<open>
  C10. For every callback descriptor \<^verbatim>\<open>runTrigger\<close> fails with the error
  \<^verbatim>\<open>Function not implemented.\<close> and has made no call to the transport: the helper
  \<^verbatim>\<open>getCallbackUrl\<close> throws before the dispatch.
\<close>

theorem runTrigger_not_implemented:
  "runTrigger svc callbackInfo log = (Inl (Error ''Function not implemented.''), log)"
  by (simp add: runTrigger_def runTrigger_with_def getCallbackUrl_def)

section \<open>Dispatch on the method\<close>

text \<open>
  C5, counterexample. The claim has the error name the rejected method in lower case,
  \<^verbatim>\<open>delete\<close> for \<^verbatim>\<open>DELETE\<close>. The message is built from \<^verbatim>\<open>method\<close>, not from
  \<^verbatim>\<open>method.toLowerCase()\<close>: it reads \<^verbatim>\<open>Unsupported call connector method - 'DELETE'\<close>.
\<close>

theorem getHttpRequestByMethod_DELETE_counterexample:
  "getHttpRequestByMethod null_client ''DELETE'' \<lparr>uri = ''https://host/x'', headers = None, noAuth = None\<rparr> [] =
     (Inl (UnsupportedException
        (''Unsupported call connector method - '' @ [CHR 0x27] @ ''DELETE'' @ [CHR 0x27])), []) \<and>
   getHttpRequestByMethod null_client ''DELETE'' \<lparr>uri = ''https://host/x'', headers = None, noAuth = None\<rparr> [] \<noteq>
     (Inl (UnsupportedException
        (''Unsupported call connector method - '' @ [CHR 0x27] @ ''delete'' @ [CHR 0x27])), [])"
  by (simp add: getHttpRequestByMethod_def toLowerCase_def toLowerCase_char_def
        unsupported_message_def apostrophe_def)

text \<open>
  C5, as amended. \<^verbatim>\<open>getHttpRequestByMethod\<close> dispatches on the method in lower case: a
  method that reads \<^verbatim>\<open>get\<close>, \<^verbatim>\<open>post\<close> or \<^verbatim>\<open>put\<close> in lower case makes one call of that
  verb with the given options and returns what the transport answers. Any other method
  makes no call and throws an \<^verbatim>\<open>UnsupportedException\<close> whose message is
  \<^verbatim>\<open>Unsupported call connector method - '\<close>, the method exactly as it was passed, and
  \<^verbatim>\<open>'\<close>.
\<close>

theorem getHttpRequestByMethod_dispatch:
  "(toLowerCase method = ''get'' \<longrightarrow>
      getHttpRequestByMethod client method opts log =
        ((case client log (GET, opts) of Inl f \<Rightarrow> Inl (Rejected f) | Inr body \<Rightarrow> Inr body),
         log @ [(GET, opts)])) \<and>
   (toLowerCase method = ''post'' \<longrightarrow>
      getHttpRequestByMethod client method opts log =
        ((case client log (POST, opts) of Inl f \<Rightarrow> Inl (Rejected f) | Inr body \<Rightarrow> Inr body),
         log @ [(POST, opts)])) \<and>
   (toLowerCase method = ''put'' \<longrightarrow>
      getHttpRequestByMethod client method opts log =
        ((case client log (PUT, opts) of Inl f \<Rightarrow> Inl (Rejected f) | Inr body \<Rightarrow> Inr body),
         log @ [(PUT, opts)])) \<and>
   (toLowerCase method \<noteq> ''get'' \<and> toLowerCase method \<noteq> ''post'' \<and> toLowerCase method \<noteq> ''put'' \<longrightarrow>
      getHttpRequestByMethod client method opts log =
        (Inl (UnsupportedException
           (''Unsupported call connector method - '' @ [CHR 0x27] @ method @ [CHR 0x27])), log))"
  by (simp add: getHttpRequestByMethod_def http_request_def unsupported_message_def apostrophe_def)

text \<open>The specification's examples: three spellings of GET, and DELETE.\<close>

theorem getHttpRequestByMethod_dispatch_witness:
  "getHttpRequestByMethod null_client ''GET'' \<lparr>uri = ''https://host/x'', headers = None, noAuth = None\<rparr> [] =
     (Inr JNull, [(GET, \<lparr>uri = ''https://host/x'', headers = None, noAuth = None\<rparr>)]) \<and>
   getHttpRequestByMethod null_client ''get'' \<lparr>uri = ''https://host/x'', headers = None, noAuth = None\<rparr> [] =
     (Inr JNull, [(GET, \<lparr>uri = ''https://host/x'', headers = None, noAuth = None\<rparr>)]) \<and>
   getHttpRequestByMethod null_client ''Get'' \<lparr>uri = ''https://host/x'', headers = None, noAuth = None\<rparr> [] =
     (Inr JNull, [(GET, \<lparr>uri = ''https://host/x'', headers = None, noAuth = None\<rparr>)]) \<and>
   getHttpRequestByMethod null_client ''Post'' \<lparr>uri = ''https://host/x'', headers = None, noAuth = None\<rparr> [] =
     (Inr JNull, [(POST, \<lparr>uri = ''https://host/x'', headers = None, noAuth = None\<rparr>)]) \<and>
   getHttpRequestByMethod null_client ''pUT'' \<lparr>uri = ''https://host/x'', headers = None, noAuth = None\<rparr> [] =
     (Inr JNull, [(PUT, \<lparr>uri = ''https://host/x'', headers = None, noAuth = None\<rparr>)]) \<and>
   getHttpRequestByMethod null_client ''DELETE'' \<lparr>uri = ''https://host/x'', headers = None, noAuth = None\<rparr> [] =
     (Inl (UnsupportedException
        (''Unsupported call connector method - '' @ [CHR 0x27] @ ''DELETE'' @ [CHR 0x27])), [])"
proof -
  have lower:
    "toLowerCase ''GET'' = ''get''" "toLowerCase ''get'' = ''get''" "toLowerCase ''Get'' = ''get''"
    "toLowerCase ''Post'' = ''post''" "toLowerCase ''pUT'' = ''put''"
    "toLowerCase ''DELETE'' = ''delete''"
    by code_simp+
  show ?thesis
    using getHttpRequestByMethod_dispatch [of "''GET''" null_client "\<lparr>uri = ''https://host/x'', headers = None, noAuth = None\<rparr>" "[]"]
        getHttpRequestByMethod_dispatch [of "''get''" null_client "\<lparr>uri = ''https://host/x'', headers = None, noAuth = None\<rparr>" "[]"]
        getHttpRequestByMethod_dispatch [of "''Get''" null_client "\<lparr>uri = ''https://host/x'', headers = None, noAuth = None\<rparr>" "[]"]
        getHttpRequestByMethod_dispatch [of "''Post''" null_client "\<lparr>uri = ''https://host/x'', headers = None, noAuth = None\<rparr>" "[]"]
        getHttpRequestByMethod_dispatch [of "''pUT''" null_client "\<lparr>uri = ''https://host/x'', headers = None, noAuth = None\<rparr>" "[]"]
        getHttpRequestByMethod_dispatch [of "''DELETE''" null_client "\<lparr>uri = ''https://host/x'', headers = None, noAuth = None\<rparr>" "[]"]
    unfolding lower
    by (simp add: null_client_def)
qed

section \<open>Errors of the read operations\<close>

text \<open>
  C6. Whenever the call that \<^verbatim>\<open>getContent\<close>, \<^verbatim>\<open>getRun\<close>, \<^verbatim>\<open>getRuns\<close>, \<^verbatim>\<open>getMoreRuns\<close>,
  \<^verbatim>\<open>getScopeRepetitions\<close> (outside dev mode) or \<^verbatim>\<open>getRepetition\<close> makes is rejected by
  the transport with \<^verbatim>\<open>e\<close>, the operation raises a plain \<^verbatim>\<open>Error\<close> whose message is the
  message of \<^verbatim>\<open>e\<close>. An \<^verbatim>\<open>Error\<close> carries a message and nothing else: the status code and
  the server's error body of \<^verbatim>\<open>e\<close> are gone.
\<close>

theorem read_operations_rethrow_message:
  "(link_uri contentLink = Some u \<and> u \<noteq> [] \<and>
    httpClient (options svc) log
      (GET, \<lparr>uri = u, headers = Some [(''Access-Control-Allow-Origin'', ''*'')], noAuth = Some True\<rparr>) = Inl f \<longrightarrow>
      getContent svc contentLink log =
        (Inl (Error (e_message f)),
         log @ [(GET, \<lparr>uri = u, headers = Some [(''Access-Control-Allow-Origin'', ''*'')], noAuth = Some True\<rparr>)])) \<and>
   (httpClient (options svc) log
      (GET, \<lparr>uri = getRun_uri svc run, headers = None, noAuth = None\<rparr>) = Inl f \<longrightarrow>
      getRun svc run log =
        (Inl (Error (e_message f)),
         log @ [(GET, \<lparr>uri = getRun_uri svc run, headers = None, noAuth = None\<rparr>)])) \<and>
   (httpClient (options svc) log
      (GET, \<lparr>uri = getRuns_uri svc, headers = getAccessTokenHeaders svc, noAuth = None\<rparr>) = Inl f \<longrightarrow>
      getRuns svc log =
        (Inl (Error (e_message f)),
         log @ [(GET, \<lparr>uri = getRuns_uri svc, headers = getAccessTokenHeaders svc, noAuth = None\<rparr>)])) \<and>
   (httpClient (options svc) log
      (GET, \<lparr>uri = continuationToken, headers = getAccessTokenHeaders svc, noAuth = None\<rparr>) = Inl f \<longrightarrow>
      getMoreRuns svc continuationToken log =
        (Inl (Error (e_message f)),
         log @ [(GET, \<lparr>uri = continuationToken, headers = getAccessTokenHeaders svc, noAuth = None\<rparr>)])) \<and>
   (\<not> priv_isDev svc \<and>
    httpClient (options svc) log
      (GET, \<lparr>uri = getScopeRepetitions_uri svc action status,
             headers = getAccessTokenHeaders svc, noAuth = None\<rparr>) = Inl f \<longrightarrow>
      getScopeRepetitions svc action status log =
        (Inl (Error (e_message f)),
         log @ [(GET, \<lparr>uri = getScopeRepetitions_uri svc action status,
                       headers = getAccessTokenHeaders svc, noAuth = None\<rparr>)])) \<and>
   (httpClient (options svc) log
      (GET, \<lparr>uri = getRepetition_uri svc action repetitionId,
             headers = getAccessTokenHeaders svc, noAuth = None\<rparr>) = Inl f \<longrightarrow>
      getRepetition svc action repetitionId log =
        (Inl (Error (e_message f)),
         log @ [(GET, \<lparr>uri = getRepetition_uri svc action repetitionId,
                       headers = getAccessTokenHeaders svc, noAuth = None\<rparr>)]))"
proof (intro conjI impI)
  assume "link_uri contentLink = Some u \<and> u \<noteq> [] \<and>
    httpClient (options svc) log
      (GET, \<lparr>uri = u, headers = Some [(''Access-Control-Allow-Origin'', ''*'')], noAuth = Some True\<rparr>) = Inl f"
  then show "getContent svc contentLink log =
        (Inl (Error (e_message f)),
         log @ [(GET, \<lparr>uri = u, headers = Some [(''Access-Control-Allow-Origin'', ''*'')], noAuth = Some True\<rparr>)])"
    by (simp add: getContent_def content_request_def rethrow_message_rejected)
next
  assume "httpClient (options svc) log
      (GET, \<lparr>uri = getRun_uri svc run, headers = None, noAuth = None\<rparr>) = Inl f"
  then show "getRun svc run log =
        (Inl (Error (e_message f)),
         log @ [(GET, \<lparr>uri = getRun_uri svc run, headers = None, noAuth = None\<rparr>)])"
    by (simp add: getRun_def rethrow_message_rejected)
next
  assume "httpClient (options svc) log
      (GET, \<lparr>uri = getRuns_uri svc, headers = getAccessTokenHeaders svc, noAuth = None\<rparr>) = Inl f"
  then show "getRuns svc log =
        (Inl (Error (e_message f)),
         log @ [(GET, \<lparr>uri = getRuns_uri svc, headers = getAccessTokenHeaders svc, noAuth = None\<rparr>)])"
    by (simp add: getRuns_def rethrow_message_runs_page_rejected)
next
  assume "httpClient (options svc) log
      (GET, \<lparr>uri = continuationToken, headers = getAccessTokenHeaders svc, noAuth = None\<rparr>) = Inl f"
  then show "getMoreRuns svc continuationToken log =
        (Inl (Error (e_message f)),
         log @ [(GET, \<lparr>uri = continuationToken, headers = getAccessTokenHeaders svc, noAuth = None\<rparr>)])"
    by (simp add: getMoreRuns_def rethrow_message_runs_page_rejected)
next
  assume "\<not> priv_isDev svc \<and>
    httpClient (options svc) log
      (GET, \<lparr>uri = getScopeRepetitions_uri svc action status,
             headers = getAccessTokenHeaders svc, noAuth = None\<rparr>) = Inl f"
  then show "getScopeRepetitions svc action status log =
        (Inl (Error (e_message f)),
         log @ [(GET, \<lparr>uri = getScopeRepetitions_uri svc action status,
                       headers = getAccessTokenHeaders svc, noAuth = None\<rparr>)])"
    by (simp add: getScopeRepetitions_def rethrow_message_rejected)
next
  assume "httpClient (options svc) log
      (GET, \<lparr>uri = getRepetition_uri svc action repetitionId,
             headers = getAccessTokenHeaders svc, noAuth = None\<rparr>) = Inl f"
  then show "getRepetition svc action repetitionId log =
        (Inl (Error (e_message f)),
         log @ [(GET, \<lparr>uri = getRepetition_uri svc action repetitionId,
                       headers = getAccessTokenHeaders svc, noAuth = None\<rparr>)])"
    by (simp add: getRepetition_def rethrow_message_rejected)
qed

text \<open>
  A transport that rejects every call with the message \<^verbatim>\<open>Network Error\<close>, the status 502
  and the server message \<^verbatim>\<open>Bad Gateway\<close>.
\<close>

theorem read_operations_rethrow_message_witness:
  "fst (getContent (example_service failing_client False) \<lparr>link_uri = Some ''https://blob/in''\<rparr> []) =
     Inl (Error ''Network Error'') \<and>
   fst (getRun (example_service failing_client False) ''r1'' []) = Inl (Error ''Network Error'') \<and>
   fst (getRuns (example_service failing_client False) []) = Inl (Error ''Network Error'') \<and>
   fst (getMoreRuns (example_service failing_client False) ''https://host/page2'' []) =
     Inl (Error ''Network Error'') \<and>
   fst (getScopeRepetitions (example_service failing_client False)
          \<lparr>nodeId = ''For_each'', runId = Some ''/workflows/wf/runs/r1''\<rparr> None []) =
     Inl (Error ''Network Error'') \<and>
   fst (getRepetition (example_service failing_client False)
          \<lparr>nodeId = ''For_each'', runId = Some ''/workflows/wf/runs/r1''\<rparr> ''000001'' []) =
     Inl (Error ''Network Error'')"
  using read_operations_rethrow_message [of "\<lparr>link_uri = Some ''https://blob/in''\<rparr>" "''https://blob/in''"
          "example_service failing_client False" "[]" example_failure "''r1''" "''https://host/page2''"
          "\<lparr>nodeId = ''For_each'', runId = Some ''/workflows/wf/runs/r1''\<rparr>" None "''000001''"]
  by (simp add: example_service_def example_options_def failing_client_def example_failure_def)

section \<open>Scope repetitions\<close>

text \<open>
  C7. A service whose dev flag is set answers \<^verbatim>\<open>getScopeRepetitions\<close> with
  \<^verbatim>\<open>{ value: [] }\<close> and makes no call to the transport, whatever the node, the run and
  the status are; and a service constructed with \<^verbatim>\<open>isDev: true\<close> has the flag set.
\<close>

theorem getScopeRepetitions_dev:
  "(priv_isDev svc \<longrightarrow>
      getScopeRepetitions svc action status log = (Inr (JObj [(''value'', JArr [])]), log)) \<and>
   (new_StandardRunService opts = Inr svc \<and> isDev opts = Some True \<longrightarrow> priv_isDev svc)"
  by (auto simp: getScopeRepetitions_def new_StandardRunService_def split: if_splits)

text \<open>With a status and without one, on a transport that would reject the call.\<close>

theorem getScopeRepetitions_dev_witness:
  "new_StandardRunService (example_options failing_client (Some True)) =
     Inr (example_service failing_client True) \<and>
   getScopeRepetitions (example_service failing_client True)
       \<lparr>nodeId = ''For_each'', runId = Some ''/workflows/wf/runs/r1''\<rparr> (Some ''Succeeded'') [] =
     (Inr (JObj [(''value'', JArr [])]), []) \<and>
   getScopeRepetitions (example_service failing_client True)
       \<lparr>nodeId = ''For_each'', runId = None\<rparr> None [] =
     (Inr (JObj [(''value'', JArr [])]), [])"
proof -
  have built: "new_StandardRunService (example_options failing_client (Some True)) =
     Inr (example_service failing_client True)"
    by (simp add: new_StandardRunService_def example_options_def example_service_def)
  have dev: "priv_isDev (example_service failing_client True)"
    using getScopeRepetitions_dev [of "example_service failing_client True" _ _ _
            "example_options failing_client (Some True)"] built
    by (simp add: example_options_def)
  show ?thesis
    using built dev
      getScopeRepetitions_dev [of "example_service failing_client True"
        "\<lparr>nodeId = ''For_each'', runId = Some ''/workflows/wf/runs/r1''\<rparr>" "Some ''Succeeded''" "[]"]
      getScopeRepetitions_dev [of "example_service failing_client True"
        "\<lparr>nodeId = ''For_each'', runId = None\<rparr>" None "[]"]
    by simp
qed

text \<open>
  C8, counterexample. The claim appends the filter exactly when a status is supplied.
  The empty string is a status that was supplied, and it is falsy: the guard
  \<^verbatim>\<open>status ? ... : ''\<close> appends nothing for it.
\<close>

theorem getScopeRepetitions_empty_status_counterexample:
  "snd (getScopeRepetitions (example_service null_client False)
          \<lparr>nodeId = ''For_each'', runId = Some ''/workflows/wf/runs/r1''\<rparr> (Some []) []) =
     [(GET, \<lparr>uri = ''https://host/api/workflows/wf/runs/r1/actions/For_each/scopeRepetitions?api-version=2018-11-01'',
             headers = Some [(''Authorization'', ''token'')], noAuth = None\<rparr>)] \<and>
   snd (getScopeRepetitions (example_service null_client False)
          \<lparr>nodeId = ''For_each'', runId = Some ''/workflows/wf/runs/r1''\<rparr> (Some []) []) \<noteq>
     [(GET, \<lparr>uri = ''https://host/api/workflows/wf/runs/r1/actions/For_each/scopeRepetitions?api-version=2018-11-01'' @
                    ''&$filter=status eq '' @ [CHR 0x27] @ [] @ [CHR 0x27],
             headers = Some [(''Authorization'', ''token'')], noAuth = None\<rparr>)]"
  by (simp add: getScopeRepetitions_def getScopeRepetitions_uri_def status_filter_def
        rethrow_message_def http_request_def getAccessTokenHeaders_def
        example_service_def example_options_def null_client_def)

text \<open>
  C8, as amended. Outside dev mode \<^verbatim>\<open>getScopeRepetitions\<close> makes one call, a GET of
  \<^verbatim>\<open>{baseUrl}{runId}/actions/{nodeId}/scopeRepetitions?api-version={apiVersion}\<close> (a missing
  \<^verbatim>\<open>runId\<close> is rendered \<^verbatim>\<open>undefined\<close>), followed by \<^verbatim>\<open>&$filter=status eq '{status}'\<close>
  exactly when a non-empty status is supplied; when the status is omitted or empty
  nothing is appended.
\<close>

theorem getScopeRepetitions_request:
  "\<not> priv_isDev svc \<longrightarrow>
     (status = None \<or> status = Some [] \<longrightarrow>
        snd (getScopeRepetitions svc action status log) =
          log @ [(GET, \<lparr>uri = baseUrl (options svc) @
                              (case runId action of Some r \<Rightarrow> r | None \<Rightarrow> ''undefined'') @
                              ''/actions/'' @ nodeId action @
                              ''/scopeRepetitions?api-version='' @ apiVersion (options svc),
                        headers = getAccessTokenHeaders svc, noAuth = None\<rparr>)]) \<and>
     (\<forall>s. status = Some s \<and> s \<noteq> [] \<longrightarrow>
        snd (getScopeRepetitions svc action status log) =
          log @ [(GET, \<lparr>uri = baseUrl (options svc) @
                              (case runId action of Some r \<Rightarrow> r | None \<Rightarrow> ''undefined'') @
                              ''/actions/'' @ nodeId action @
                              ''/scopeRepetitions?api-version='' @ apiVersion (options svc) @
                              ''&$filter=status eq '' @ [CHR 0x27] @ s @ [CHR 0x27],
                        headers = getAccessTokenHeaders svc, noAuth = None\<rparr>)])"
  by (cases "runId action")
     (auto simp: getScopeRepetitions_def getScopeRepetitions_uri_def status_filter_def
        rethrow_message_def http_request_def apostrophe_def split: sum.splits)

text \<open>The specification's example, the status \<^verbatim>\<open>Succeeded\<close>, and no status.\<close>

theorem getScopeRepetitions_request_witness:
  "snd (getScopeRepetitions (example_service null_client False)
          \<lparr>nodeId = ''For_each'', runId = Some ''/workflows/wf/runs/r1''\<rparr> (Some ''Succeeded'') []) =
     [(GET, \<lparr>uri = ''https://host/api/workflows/wf/runs/r1/actions/For_each/scopeRepetitions?api-version=2018-11-01'' @
                    ''&$filter=status eq '' @ [CHR 0x27] @ ''Succeeded'' @ [CHR 0x27],
             headers = Some [(''Authorization'', ''token'')], noAuth = None\<rparr>)] \<and>
   snd (getScopeRepetitions (example_service null_client False)
          \<lparr>nodeId = ''For_each'', runId = Some ''/workflows/wf/runs/r1''\<rparr> None []) =
     [(GET, \<lparr>uri = ''https://host/api/workflows/wf/runs/r1/actions/For_each/scopeRepetitions?api-version=2018-11-01'',
             headers = Some [(''Authorization'', ''token'')], noAuth = None\<rparr>)]"
  using getScopeRepetitions_request [of "example_service null_client False" "Some ''Succeeded''"
          "\<lparr>nodeId = ''For_each'', runId = Some ''/workflows/wf/runs/r1''\<rparr>" "[]"]
        getScopeRepetitions_request [of "example_service null_client False" None
          "\<lparr>nodeId = ''For_each'', runId = Some ''/workflows/wf/runs/r1''\<rparr>" "[]"]
  by (simp add: example_service_def example_options_def getAccessTokenHeaders_def)

section \<open>Inputs and outputs of an action\<close>

lemma parseActionLink_empty_object: "parseActionLink (JObj []) b = JObj []"
  by (simp add: parseActionLink_def object_keys_def)

lemma fetch_if_linked_skipped:
  "\<not> has_uri link \<Longrightarrow> fetch_if_linked svc link log = (Inr (JObj []), log)"
  by (cases link) (simp_all add: fetch_if_linked_def)

lemma fetch_if_linked_resolved:
  "link = Some l \<Longrightarrow> link_uri l = Some u \<Longrightarrow> u \<noteq> [] \<Longrightarrow>
   httpClient (options svc) log (GET, content_request u) = Inr body \<Longrightarrow>
   fetch_if_linked svc link log = (Inr body, log @ [(GET, content_request u)])"
  by (simp add: fetch_if_linked_def getContent_def rethrow_message_resolved)

lemma fetch_if_linked_rejected:
  "link = Some l \<Longrightarrow> link_uri l = Some u \<Longrightarrow> u \<noteq> [] \<Longrightarrow>
   httpClient (options svc) log (GET, content_request u) = Inl f \<Longrightarrow>
   fetch_if_linked svc link log = (Inl (Error (e_message f)), log @ [(GET, content_request u)])"
  by (simp add: fetch_if_linked_def getContent_def rethrow_message_rejected)

text \<open>
  C9. In dev mode \<^verbatim>\<open>getActionLinks\<close> makes no call to the transport, whatever the links
  are, and returns the fixtures of the node (an empty object for a node that has none),
  the inputs normalised by \<^verbatim>\<open>parseActionLink\<close> with \<^verbatim>\<open>isInput = true\<close> and the outputs
  with \<^verbatim>\<open>isInput = false\<close>. Outside dev mode it fetches the content of the outputs link
  first and that of the inputs link second, each only if the link has a non-empty
  \<^verbatim>\<open>uri\<close>, and returns \<^verbatim>\<open>{ inputs, outputs }\<close> normalised in the same way; a payload that
  was not fetched is the empty object. The order shows in the log, and in the last
  conjunct: when the fetch of the outputs fails, the inputs are not requested.
\<close>

theorem getActionLinks_frames:
  "(priv_isDev svc \<longrightarrow>
      getActionLinks fx svc actionMetadata node log =
        (Inr \<lparr>inputs = parseActionLink
                          (if get_prop (inputsResponse fx) node = JUndefined \<or>
                              get_prop (inputsResponse fx) node = JNull
                           then JObj [] else get_prop (inputsResponse fx) node) True,
              outputs = parseActionLink
                          (if get_prop (outputsResponse fx) node = JUndefined \<or>
                              get_prop (outputsResponse fx) node = JNull
                           then JObj [] else get_prop (outputsResponse fx) node) False\<rparr>,
         log)) \<and>
   (priv_isDev svc \<and> get_prop (inputsResponse fx) node = JUndefined \<and>
    get_prop (outputsResponse fx) node = JUndefined \<longrightarrow>
      getActionLinks fx svc actionMetadata node log = (Inr \<lparr>inputs = JObj [], outputs = JObj []\<rparr>, log)) \<and>
   (\<not> priv_isDev svc \<and>
    outputsLink am = Some ol \<and> link_uri ol = Some uo \<and> uo \<noteq> [] \<and>
    inputsLink am = Some il \<and> link_uri il = Some ui \<and> ui \<noteq> [] \<and>
    httpClient (options svc) log (GET, content_request uo) = Inr bo \<and>
    httpClient (options svc) (log @ [(GET, content_request uo)]) (GET, content_request ui) = Inr bi \<longrightarrow>
      getActionLinks fx svc (Some am) node log =
        (Inr \<lparr>inputs = parseActionLink bi True, outputs = parseActionLink bo False\<rparr>,
         log @ [(GET, content_request uo), (GET, content_request ui)])) \<and>
   (\<not> priv_isDev svc \<and> \<not> has_uri (outputsLink am) \<and>
    inputsLink am = Some il \<and> link_uri il = Some ui \<and> ui \<noteq> [] \<and>
    httpClient (options svc) log (GET, content_request ui) = Inr bi \<longrightarrow>
      getActionLinks fx svc (Some am) node log =
        (Inr \<lparr>inputs = parseActionLink bi True, outputs = JObj []\<rparr>,
         log @ [(GET, content_request ui)])) \<and>
   (\<not> priv_isDev svc \<and>
    outputsLink am = Some ol \<and> link_uri ol = Some uo \<and> uo \<noteq> [] \<and>
    \<not> has_uri (inputsLink am) \<and>
    httpClient (options svc) log (GET, content_request uo) = Inr bo \<longrightarrow>
      getActionLinks fx svc (Some am) node log =
        (Inr \<lparr>inputs = JObj [], outputs = parseActionLink bo False\<rparr>,
         log @ [(GET, content_request uo)])) \<and>
   (\<not> priv_isDev svc \<and> \<not> has_uri (outputsLink am) \<and> \<not> has_uri (inputsLink am) \<longrightarrow>
      getActionLinks fx svc (Some am) node log = (Inr \<lparr>inputs = JObj [], outputs = JObj []\<rparr>, log)) \<and>
   (\<not> priv_isDev svc \<longrightarrow>
      getActionLinks fx svc None node log = (Inr \<lparr>inputs = JObj [], outputs = JObj []\<rparr>, log)) \<and>
   (\<not> priv_isDev svc \<and>
    outputsLink am = Some ol \<and> link_uri ol = Some uo \<and> uo \<noteq> [] \<and>
    httpClient (options svc) log (GET, content_request uo) = Inl f \<longrightarrow>
      getActionLinks fx svc (Some am) node log =
        (Inl (Error (e_message f)), log @ [(GET, content_request uo)]))"
proof (intro conjI impI)
  assume "priv_isDev svc"
  then show "getActionLinks fx svc actionMetadata node log =
        (Inr \<lparr>inputs = parseActionLink
                          (if get_prop (inputsResponse fx) node = JUndefined \<or>
                              get_prop (inputsResponse fx) node = JNull
                           then JObj [] else get_prop (inputsResponse fx) node) True,
              outputs = parseActionLink
                          (if get_prop (outputsResponse fx) node = JUndefined \<or>
                              get_prop (outputsResponse fx) node = JNull
                           then JObj [] else get_prop (outputsResponse fx) node) False\<rparr>,
         log)"
    by (simp add: getActionLinks_def nullish_or_def)
next
  assume "priv_isDev svc \<and> get_prop (inputsResponse fx) node = JUndefined \<and>
    get_prop (outputsResponse fx) node = JUndefined"
  then show "getActionLinks fx svc actionMetadata node log =
      (Inr \<lparr>inputs = JObj [], outputs = JObj []\<rparr>, log)"
    by (simp add: getActionLinks_def nullish_or_def parseActionLink_empty_object)
next
  assume h: "\<not> priv_isDev svc \<and>
    outputsLink am = Some ol \<and> link_uri ol = Some uo \<and> uo \<noteq> [] \<and>
    inputsLink am = Some il \<and> link_uri il = Some ui \<and> ui \<noteq> [] \<and>
    httpClient (options svc) log (GET, content_request uo) = Inr bo \<and>
    httpClient (options svc) (log @ [(GET, content_request uo)]) (GET, content_request ui) = Inr bi"
  then have "fetch_if_linked svc (outputsLink am) log = (Inr bo, log @ [(GET, content_request uo)])"
    by (simp add: fetch_if_linked_resolved)
  moreover from h have "fetch_if_linked svc (inputsLink am) (log @ [(GET, content_request uo)]) =
      (Inr bi, (log @ [(GET, content_request uo)]) @ [(GET, content_request ui)])"
    using fetch_if_linked_resolved [of "inputsLink am" il ui svc "log @ [(GET, content_request uo)]" bi]
    by simp
  ultimately show "getActionLinks fx svc (Some am) node log =
        (Inr \<lparr>inputs = parseActionLink bi True, outputs = parseActionLink bo False\<rparr>,
         log @ [(GET, content_request uo), (GET, content_request ui)])"
    using h by (simp add: getActionLinks_def)
next
  assume h: "\<not> priv_isDev svc \<and> \<not> has_uri (outputsLink am) \<and>
    inputsLink am = Some il \<and> link_uri il = Some ui \<and> ui \<noteq> [] \<and>
    httpClient (options svc) log (GET, content_request ui) = Inr bi"
  then have "fetch_if_linked svc (outputsLink am) log = (Inr (JObj []), log)"
    by (simp add: fetch_if_linked_skipped)
  moreover from h have "fetch_if_linked svc (inputsLink am) log =
      (Inr bi, log @ [(GET, content_request ui)])"
    by (simp add: fetch_if_linked_resolved)
  ultimately show "getActionLinks fx svc (Some am) node log =
        (Inr \<lparr>inputs = parseActionLink bi True, outputs = JObj []\<rparr>,
         log @ [(GET, content_request ui)])"
    using h by (simp add: getActionLinks_def parseActionLink_empty_object)
next
  assume h: "\<not> priv_isDev svc \<and>
    outputsLink am = Some ol \<and> link_uri ol = Some uo \<and> uo \<noteq> [] \<and>
    \<not> has_uri (inputsLink am) \<and>
    httpClient (options svc) log (GET, content_request uo) = Inr bo"
  then have "fetch_if_linked svc (outputsLink am) log = (Inr bo, log @ [(GET, content_request uo)])"
    by (simp add: fetch_if_linked_resolved)
  moreover from h have "fetch_if_linked svc (inputsLink am) (log @ [(GET, content_request uo)]) =
      (Inr (JObj []), log @ [(GET, content_request uo)])"
    by (simp add: fetch_if_linked_skipped)
  ultimately show "getActionLinks fx svc (Some am) node log =
        (Inr \<lparr>inputs = JObj [], outputs = parseActionLink bo False\<rparr>,
         log @ [(GET, content_request uo)])"
    using h by (simp add: getActionLinks_def parseActionLink_empty_object)
next
  assume h: "\<not> priv_isDev svc \<and> \<not> has_uri (outputsLink am) \<and> \<not> has_uri (inputsLink am)"
  then show "getActionLinks fx svc (Some am) node log =
      (Inr \<lparr>inputs = JObj [], outputs = JObj []\<rparr>, log)"
    by (simp add: getActionLinks_def fetch_if_linked_skipped parseActionLink_empty_object)
next
  assume "\<not> priv_isDev svc"
  then show "getActionLinks fx svc None node log =
      (Inr \<lparr>inputs = JObj [], outputs = JObj []\<rparr>, log)"
    by (simp add: getActionLinks_def fetch_if_linked_def parseActionLink_empty_object)
next
  assume h: "\<not> priv_isDev svc \<and>
    outputsLink am = Some ol \<and> link_uri ol = Some uo \<and> uo \<noteq> [] \<and>
    httpClient (options svc) log (GET, content_request uo) = Inl f"
  then have "fetch_if_linked svc (outputsLink am) log =
      (Inl (Error (e_message f)), log @ [(GET, content_request uo)])"
    by (simp add: fetch_if_linked_rejected)
  then show "getActionLinks fx svc (Some am) node log =
        (Inl (Error (e_message f)), log @ [(GET, content_request uo)])"
    using h by (simp add: getActionLinks_def)
qed

text \<open>
  Dev mode on a transport that would reject every call; then both links, an empty
  \<^verbatim>\<open>uri\<close>, and a failing fetch outside dev mode.
\<close>

theorem getActionLinks_frames_witness:
  "getActionLinks example_fixtures (example_service failing_client True) (Some example_links) ''Compose'' [] =
     (Inr \<lparr>inputs = JObj [(''Inputs'', JObj [(''displayName'', JStr ''Inputs''), (''value'', JStr ''hello'')])],
           outputs = JObj [(''a'', JObj [(''displayName'', JStr ''a''), (''value'', JNum 1)])]\<rparr>, []) \<and>
   getActionLinks example_fixtures (example_service failing_client True) (Some example_links) ''Missing'' [] =
     (Inr \<lparr>inputs = JObj [], outputs = JObj []\<rparr>, []) \<and>
   getActionLinks example_fixtures (example_service example_client False) (Some example_links) ''Compose'' [] =
     (Inr \<lparr>inputs = JObj [(''a'', JObj [(''displayName'', JStr ''a''), (''value'', JNum 1)])],
           outputs = JObj [(''Outputs'', JObj [(''displayName'', JStr ''Outputs''), (''value'', JStr ''done'')])]\<rparr>,
      [(GET, \<lparr>uri = ''https://blob/out'', headers = Some [(''Access-Control-Allow-Origin'', ''*'')],
              noAuth = Some True\<rparr>),
       (GET, \<lparr>uri = ''https://blob/in'', headers = Some [(''Access-Control-Allow-Origin'', ''*'')],
              noAuth = Some True\<rparr>)]) \<and>
   getActionLinks example_fixtures (example_service example_client False)
       (Some \<lparr>inputsLink = None, outputsLink = Some \<lparr>link_uri = Some []\<rparr>\<rparr>) ''Compose'' [] =
     (Inr \<lparr>inputs = JObj [], outputs = JObj []\<rparr>, []) \<and>
   getActionLinks example_fixtures (example_service failing_client False) (Some example_links) ''Compose'' [] =
     (Inl (Error ''Network Error''),
      [(GET, \<lparr>uri = ''https://blob/out'', headers = Some [(''Access-Control-Allow-Origin'', ''*'')],
              noAuth = Some True\<rparr>)])"
proof -
  have parsed:
    "parseActionLink (JStr ''hello'') True =
       JObj [(''Inputs'', JObj [(''displayName'', JStr ''Inputs''), (''value'', JStr ''hello'')])]"
    "parseActionLink (JStr ''done'') False =
       JObj [(''Outputs'', JObj [(''displayName'', JStr ''Outputs''), (''value'', JStr ''done'')])]"
    "\<And>b. parseActionLink (JObj [(''a'', JNum 1)]) b =
       JObj [(''a'', JObj [(''displayName'', JStr ''a''), (''value'', JNum 1)])]"
    by (simp_all add: parseActionLink_def object_keys_def get_prop_def bound_parameter_def)
  have dev: "priv_isDev (example_service failing_client True)"
    and prod: "\<not> priv_isDev (example_service example_client False)"
      "\<not> priv_isDev (example_service failing_client False)"
    and clients: "httpClient (options (example_service example_client False)) = example_client"
      "httpClient (options (example_service failing_client False)) = failing_client"
    by (simp_all add: example_service_def example_options_def)
  have fixtures:
    "get_prop (inputsResponse example_fixtures) ''Compose'' = JStr ''hello''"
    "get_prop (outputsResponse example_fixtures) ''Compose'' = JObj [(''a'', JNum 1)]"
    "get_prop (inputsResponse example_fixtures) ''Missing'' = JUndefined"
    "get_prop (outputsResponse example_fixtures) ''Missing'' = JUndefined"
    by (simp_all add: example_fixtures_def get_prop_def)
  have links: "outputsLink example_links = Some \<lparr>link_uri = Some ''https://blob/out''\<rparr>"
    "inputsLink example_links = Some \<lparr>link_uri = Some ''https://blob/in''\<rparr>"
    by (simp_all add: example_links_def)
  have served:
    "\<And>log. example_client log (GET, content_request ''https://blob/out'') = Inr (JStr ''done'')"
    "\<And>log. example_client log (GET, content_request ''https://blob/in'') = Inr (JObj [(''a'', JNum 1)])"
    "\<And>log call. failing_client log call = Inl example_failure"
    by (simp_all add: example_client_def content_request_def failing_client_def)
  have a: "getActionLinks example_fixtures (example_service failing_client True) (Some example_links) ''Compose'' [] =
     (Inr \<lparr>inputs = JObj [(''Inputs'', JObj [(''displayName'', JStr ''Inputs''), (''value'', JStr ''hello'')])],
           outputs = JObj [(''a'', JObj [(''displayName'', JStr ''a''), (''value'', JNum 1)])]\<rparr>, [])"
    using getActionLinks_frames [of "example_service failing_client True" example_fixtures
            "Some example_links" "''Compose''" "[]", THEN conjunct1] dev
    by (simp add: fixtures parsed)
  have b: "getActionLinks example_fixtures (example_service failing_client True) (Some example_links) ''Missing'' [] =
     (Inr \<lparr>inputs = JObj [], outputs = JObj []\<rparr>, [])"
    using getActionLinks_frames [of "example_service failing_client True" example_fixtures
            "Some example_links" "''Missing''" "[]", THEN conjunct2, THEN conjunct1] dev
    by (simp add: fixtures)
  have c: "getActionLinks example_fixtures (example_service example_client False) (Some example_links) ''Compose'' [] =
     (Inr \<lparr>inputs = JObj [(''a'', JObj [(''displayName'', JStr ''a''), (''value'', JNum 1)])],
           outputs = JObj [(''Outputs'', JObj [(''displayName'', JStr ''Outputs''), (''value'', JStr ''done'')])]\<rparr>,
      [(GET, content_request ''https://blob/out''), (GET, content_request ''https://blob/in'')])"
    using getActionLinks_frames [where svc = "example_service example_client False"
            and fx = example_fixtures and node = "''Compose''" and log = "[]" and am = example_links
            and ol = "\<lparr>link_uri = Some ''https://blob/out''\<rparr>" and uo = "''https://blob/out''"
            and il = "\<lparr>link_uri = Some ''https://blob/in''\<rparr>" and ui = "''https://blob/in''"
            and bo = "JStr ''done''" and bi = "JObj [(''a'', JNum 1)]",
            THEN conjunct2, THEN conjunct2, THEN conjunct1] prod
    by (simp add: clients served links parsed)
  have d: "getActionLinks example_fixtures (example_service example_client False)
       (Some \<lparr>inputsLink = None, outputsLink = Some \<lparr>link_uri = Some []\<rparr>\<rparr>) ''Compose'' [] =
     (Inr \<lparr>inputs = JObj [], outputs = JObj []\<rparr>, [])"
    using getActionLinks_frames [where svc = "example_service example_client False"
            and fx = example_fixtures and node = "''Compose''" and log = "[]"
            and am = "\<lparr>inputsLink = None, outputsLink = Some \<lparr>link_uri = Some []\<rparr>\<rparr>",
            THEN conjunct2, THEN conjunct2, THEN conjunct2, THEN conjunct2, THEN conjunct2,
            THEN conjunct1] prod
    by simp
  have e: "getActionLinks example_fixtures (example_service failing_client False) (Some example_links) ''Compose'' [] =
     (Inl (Error ''Network Error''), [(GET, content_request ''https://blob/out'')])"
    using getActionLinks_frames [where svc = "example_service failing_client False"
            and fx = example_fixtures and node = "''Compose''" and log = "[]" and am = example_links
            and ol = "\<lparr>link_uri = Some ''https://blob/out''\<rparr>" and uo = "''https://blob/out''"
            and f = example_failure,
            THEN conjunct2, THEN conjunct2, THEN conjunct2, THEN conjunct2, THEN conjunct2,
            THEN conjunct2, THEN conjunct2] prod
    by (simp add: clients served links example_failure_def)
  show ?thesis
    using a b c d e by (simp add: content_request_def)
qed

end
